theory Spec2Isabelle
  imports
    Main
    "HOL-Library.Word"
    "HOL-Library.Multiset"
    "HOL-Library.AList"
    "HOL-Library.Char_ord"
    "HOL-Library.List_Lexorder"
begin

section \<open>JavaScript values\<close>

text \<open>
  The generators receive untyped JavaScript values: option objects, value payloads,
  table references. An object is the list of its own enumerable entries in the order
  \<^verbatim>\<open>Object.entries\<close> yields them (keys are distinct); numbers are the integers;
  a function value is opaque (\<open>JFun\<close> carries an identity only). \<open>JModel\<close> is a model class
  (what \<^verbatim>\<open>isModelStatic\<close> recognises) and carries the entries of
  \<^verbatim>\<open>model.modelDefinition.physicalAttributes\<close> in iteration order.
\<close>

datatype jsval =
    JUndefined
  | JNull
  | JBool bool
  | JNum int
  | JStr string
  | JArr "jsval list"
  | JObj "(string \<times> jsval) list"
  | JFun nat
  | JModel "(string \<times> jsval) list"

text \<open>Truthiness, as \<^verbatim>\<open>if (x)\<close>, \<^verbatim>\<open>!x\<close>, \<^verbatim>\<open>a && b\<close> and \<^verbatim>\<open>c ? a : b\<close> read a value.\<close>

fun truthy :: "jsval \<Rightarrow> bool" where
  "truthy JUndefined = False"
| "truthy JNull = False"
| "truthy (JBool b) = b"
| "truthy (JNum n) = (n \<noteq> 0)"
| "truthy (JStr s) = (s \<noteq> [])"
| "truthy (JArr xs) = True"
| "truthy (JObj kv) = True"
| "truthy (JFun f) = True"
| "truthy (JModel atts) = True"

text \<open>\<^verbatim>\<open>x == null\<close>: true of \<^verbatim>\<open>null\<close> and of \<^verbatim>\<open>undefined\<close>.\<close>

fun nullish :: "jsval \<Rightarrow> bool" where
  "nullish JUndefined = True"
| "nullish JNull = True"
| "nullish v = False"

text \<open>
  Property read \<^verbatim>\<open>o?.k\<close>: the entry's value, \<^verbatim>\<open>undefined\<close> when the object has no
  such entry or when \<open>o\<close> is not an object. (The properties read in these files are
  option and attribute names, which arrays, strings and functions do not have.)
\<close>

fun js_get :: "jsval \<Rightarrow> string \<Rightarrow> jsval" where
  "js_get (JObj kv) k = (case map_of kv k of Some v \<Rightarrow> v | None \<Rightarrow> JUndefined)"
| "js_get v k = JUndefined"

text \<open>The keys of an options object (\<^verbatim>\<open>Object.keys\<close>).\<close>

fun js_keys :: "jsval \<Rightarrow> string list" where
  "js_keys (JObj kv) = map fst kv"
| "js_keys v = []"

text \<open>Object spread \<^verbatim>\<open>{...o}\<close> and \<^verbatim>\<open>Object.entries(o)\<close> of an object or of
  \<^verbatim>\<open>undefined\<close> (options and attribute hashes are nothing else).\<close>

fun js_spread :: "jsval \<Rightarrow> (string \<times> jsval) list" where
  "js_spread (JObj kv) = kv"
| "js_spread v = []"

fun is_function :: "jsval \<Rightarrow> bool" where
  "is_function (JFun f) = True"
| "is_function (JModel atts) = True"
| "is_function v = False"

text \<open>\<^verbatim>\<open>Array.prototype.join\<close> on an array of strings.\<close>

fun join :: "string \<Rightarrow> string list \<Rightarrow> string" where
  "join sep [] = []"
| "join sep [x] = x"
| "join sep (x # y # ys) = x @ sep @ join sep (y # ys)"

text \<open>
  \<^verbatim>\<open>String.prototype.toLowerCase\<close> on the ASCII letters. The only use compares the result
  with \<^verbatim>\<open>'unique'\<close>, and no character outside ASCII lowers to one of its letters.
\<close>

definition lower_char :: "char \<Rightarrow> char" where
  "lower_char c =
     (case map_of (zip ''ABCDEFGHIJKLMNOPQRSTUVWXYZ'' ''abcdefghijklmnopqrstuvwxyz'') c of
        Some d \<Rightarrow> d
      | None \<Rightarrow> c)"

definition toLowerCase :: "string \<Rightarrow> string" where
  "toLowerCase s = map lower_char s"



text \<open>The decimal digits of a natural number.\<close>

fun showNat :: "nat \<Rightarrow> string" where
  "showNat n =
     (if n < 10 then [''0123456789'' ! n]
      else showNat (n div 10) @ [''0123456789'' ! (n mod 10)])"

text \<open>\<^verbatim>\<open>Buffer.toString('hex')\<close>: two lower-case hexadecimal digits for each byte.\<close>

definition hex_digit :: "nat \<Rightarrow> char" where
  "hex_digit n = ''0123456789abcdef'' ! (n mod 16)"

definition hex_byte :: "8 word \<Rightarrow> string" where
  "hex_byte b = [hex_digit (unat b div 16), hex_digit (unat b mod 16)]"

definition toString_hex :: "8 word list \<Rightarrow> string" where
  "toString_hex bs = concat (map hex_byte bs)"

section \<open>Errors and collaborators\<close>

text \<open>
  Every \<^verbatim>\<open>throw\<close> of the source is a value. \<open>JsError\<close> is \<^verbatim>\<open>new Error(message)\<close>;
  \<open>InvalidValue v\<close> is the \<^verbatim>\<open>Error\<close> whose message embeds \<^verbatim>\<open>inspect(v)\<close>;
  \<open>TypeError\<close> is what the runtime raises on a call of a missing method;
  \<open>ConfigurationError\<close> (operation, dialect, offending keys) is what the option validator
  raises. \<open>IllTyped\<close> is no error of the program: it marks an input outside the declared
  TypeScript type of a parameter, where this model gives the code no reading.
\<close>

datatype error =
    JsError string
  | InvalidValue jsval
  | TypeError string
  | ConfigurationError string string "string list"
  | IllTyped string

record tableDetails =
  tableName :: string
  schema :: string

type_synonym bindings = "(string \<times> jsval) list"

text \<open>
  The generator's collaborators are code of the repository outside the files verified
  here (the escaper, the table normaliser, the option validator, the dialect's internals,
  the superclass). They are the fields of the generator object, and every theorem below
  that does not fix one of them holds for all of them.

  \<open>escape v options b\<close> is \<^verbatim>\<open>this.escape(v, options)\<close>: the literal, and the bind-parameter
  object \<open>b\<close> after the call (the closure made by \<^verbatim>\<open>internals.bindParam(bind)\<close> writes to
  it). \<open>escapeRaises v options b\<close> is the error that call throws, when it throws: the
  operations whose result has an error branch let it through; the list queries, which
  escape the names of databases and schemas, take the escaper's result as returned.
  \<open>rejectInvalidOptions\<close> returns the error it throws, if any. \<open>supportable\<close> gives the
  \<^verbatim>\<open>*_SUPPORTABLE_OPTIONS\<close> constant of an operation. \<open>extractTableDetails\<close> resolves the
  schema (to the dialect's default when the reference names none). \<open>nativeToString v\<close> is
  \<^verbatim>\<open>String(v)\<close> for the values whose string form is not in the value as modelled: the
  source text of a function or class, and the exponent form of a number of 22 digits or
  more.
\<close>

record generator =
  dialectName :: string
  escape :: "jsval \<Rightarrow> jsval \<Rightarrow> bindings \<Rightarrow> string \<times> bindings"
  escapeRaises :: "jsval \<Rightarrow> jsval \<Rightarrow> bindings \<Rightarrow> error option"
  quoteIdentifier :: "string \<Rightarrow> string"
  quoteTable :: "jsval \<Rightarrow> string"
  extractTableDetails :: "jsval \<Rightarrow> tableDetails"
  supportable :: "string \<Rightarrow> string list"
  rejectInvalidOptions :: "string \<Rightarrow> string list \<Rightarrow> string list \<Rightarrow> jsval \<Rightarrow> error option"
  generateIndexName :: "tableDetails \<Rightarrow> string list \<Rightarrow> string"
  removeNullishValuesFromHash :: "(string \<times> jsval) list \<Rightarrow> bool \<Rightarrow> (string \<times> jsval) list"
  getTechnicalDatabaseNames :: "string list"
  getTechnicalSchemaNames :: "string list"
  internalBindParam :: nat
  getReturnFields :: "(string \<times> jsval) list \<Rightarrow> (jsval \<times> jsval) list \<Rightarrow> string list"
  generateUpdateOnDuplicateKeysFragment :: "(string \<times> jsval) list \<Rightarrow> string"
  omitNull :: "bool option"
  prependSearchPath :: jsval
  superAddIndexQuery :: "jsval \<Rightarrow> jsval \<Rightarrow> error + string"
  nativeToString :: "jsval \<Rightarrow> string"

text \<open>\<^verbatim>\<open>this.escape(v)\<close> with no options: no bind-parameter closure is in scope.\<close>

definition escapeValue :: "generator \<Rightarrow> jsval \<Rightarrow> string" where
  "escapeValue g v = fst (escape g v JUndefined [])"




text \<open>
  Modelled from the spec: \<^verbatim>\<open>joinSQLFragments\<close> (utils/join-sql-fragments) is not among
  the files; the fragment assembler filters out empty strings and joins the survivors
  with a single space.
\<close>

definition joinSQLFragments :: "string list \<Rightarrow> string" where
  "joinSQLFragments fragments = join '' '' (filter (\<lambda>s. s \<noteq> []) fragments)"

text \<open>
  Modelled from the spec: \<^verbatim>\<open>rejectInvalidOptions\<close> (utils/check) is not among the files;
  the option validator fails with a \<^verbatim>\<open>ConfigurationError\<close> naming the operation, the
  dialect and the keys of the options that are not in the supported set.
\<close>

definition rejectInvalidOptions_spec ::
  "string \<Rightarrow> string \<Rightarrow> string list \<Rightarrow> string list \<Rightarrow> jsval \<Rightarrow> error option" where
  "rejectInvalidOptions_spec dialect operation supportableKeys supportedKeys options =
     (let offending = filter (\<lambda>k. k \<notin> set supportedKeys) (js_keys options)
      in if offending = [] then None
         else Some (ConfigurationError operation dialect offending))"


section \<open>The Postgres generator\<close>


definition INSERT_QUERY_SUPPORTED_OPTIONS :: "string list" where
  "INSERT_QUERY_SUPPORTED_OPTIONS =
     [''conflictWhere'', ''exception'', ''ignoreDuplicates'', ''returning'', ''updateOnDuplicate'']"

text \<open>The caller's skip list: \<^verbatim>\<open>options.skip\<close> when options are given and it is an array.\<close>

definition skipOf :: "jsval \<Rightarrow> jsval list" where
  "skipOf options =
     (if truthy options then (case js_get options ''skip'' of JArr xs \<Rightarrow> xs | _ \<Rightarrow> [])
      else [])"

definition pg_listDatabasesQuery :: "generator \<Rightarrow> jsval \<Rightarrow> string" where
  \<open>pg_listDatabasesQuery g options =
     (let databasesToSkip = map JStr (getTechnicalDatabaseNames g) @ skipOf options
      in joinSQLFragments
           [''SELECT datname AS "name" FROM pg_database'',
            ''WHERE datistemplate = false AND datname NOT IN (''
              @ join '', '' (map (escapeValue g) databasesToSkip) @ '')''])\<close>


definition pg_listSchemasQuery :: "generator \<Rightarrow> jsval \<Rightarrow> string" where
  \<open>pg_listSchemasQuery g options =
     (let schemasToSkip =
            (JStr ''public'' # map JStr (getTechnicalSchemaNames g)) @ skipOf options
      in joinSQLFragments
           [''SELECT schema_name AS "schema" FROM information_schema.schemata'',
            ''WHERE schema_name !~ E'^pg_' AND schema_name NOT IN (''
              @ join '', '' (map (escapeValue g) schemasToSkip) @ '')''])\<close>

definition pg_listTablesQuery :: "generator \<Rightarrow> jsval \<Rightarrow> string" where
  \<open>pg_listTablesQuery g options =
     joinSQLFragments
       [''SELECT table_name AS "tableName", table_schema AS "schema"'',
        ''FROM information_schema.tables WHERE table_type = 'BASE TABLE' AND table_name != 'spatial_ref_sys''
          @ [CHR 0x27],
        if truthy (js_get options ''schema'')
        then ''AND table_schema = '' @ escapeValue g (js_get options ''schema'')
        else ''AND table_schema !~ E'^pg_' AND table_schema NOT IN (''
               @ join '', '' (map (escapeValue g) (map JStr (getTechnicalSchemaNames g)))
               @ '')'',
        ''ORDER BY table_schema, table_name'']\<close>

definition pg_renameTableQuery :: "generator \<Rightarrow> jsval \<Rightarrow> jsval \<Rightarrow> jsval \<Rightarrow> error + string" where
  "pg_renameTableQuery g beforeTableName afterTableName options =
     (let beforeTable = extractTableDetails g beforeTableName;
          afterTable = extractTableDetails g afterTableName
      in if schema beforeTable \<noteq> schema afterTable
         then (if \<not> truthy (js_get options ''changeSchema'')
               then Inl (JsError
                 ''To move a table between schemas, you must set `options.changeSchema` to true.'')
               else if tableName beforeTable \<noteq> tableName afterTable
               then Inl (JsError
                 (''Renaming a table and moving it to a different schema is not supported by ''
                    @ dialectName g @ ''.''))
               else Inr (''ALTER TABLE '' @ quoteTable g beforeTableName @ '' SET SCHEMA ''
                           @ quoteIdentifier g (schema afterTable)))
         else Inr (''ALTER TABLE '' @ quoteTable g beforeTableName @ '' RENAME TO ''
                     @ quoteIdentifier g (tableName afterTable)))"

text \<open>The second argument of \<^verbatim>\<open>removeIndexQuery\<close>: \<^verbatim>\<open>string | string[]\<close>.\<close>

datatype indexNameOrAttributes = IndexName string | IndexAttributes "string list"

definition pg_removeIndexName :: "generator \<Rightarrow> jsval \<Rightarrow> indexNameOrAttributes \<Rightarrow> string" where
  "pg_removeIndexName g tableRef nameOrAttributes =
     (case nameOrAttributes of
        IndexAttributes fieldNames \<Rightarrow> generateIndexName g (extractTableDetails g tableRef) fieldNames
      | IndexName n \<Rightarrow> n)"

definition pg_removeIndexQuery ::
  "generator \<Rightarrow> jsval \<Rightarrow> indexNameOrAttributes \<Rightarrow> jsval \<Rightarrow> error + string" where
  "pg_removeIndexQuery g tableRef nameOrAttributes options =
     (if truthy (js_get options ''cascade'') \<and> truthy (js_get options ''concurrently'')
      then Inl (JsError
        (''Cannot specify both concurrently and cascade options in removeIndexQuery for ''
           @ dialectName g @ '' dialect''))
      else
        (let indexName = pg_removeIndexName g tableRef nameOrAttributes;
             table = extractTableDetails g tableRef
         in Inr (joinSQLFragments
              [''DROP INDEX'',
               if truthy (js_get options ''concurrently'') then ''CONCURRENTLY'' else [],
               if truthy (js_get options ''ifExists'') then ''IF EXISTS'' else [],
               quoteIdentifier g (schema table) @ ''.'' @ quoteIdentifier g indexName,
               if truthy (js_get options ''cascade'') then ''CASCADE'' else []])))"

subsection \<open>insertQuery\<close>

record queryWithBindParams =
  query :: string
  bind :: "bindings option"

text \<open>The checks on the options: the validator, then the exclusivity of the two modes.\<close>

definition insertCheckOptions :: "generator \<Rightarrow> jsval \<Rightarrow> error option" where
  "insertCheckOptions g options =
     (if truthy options
      then (case rejectInvalidOptions g ''insertQuery'' (supportable g ''insertQuery'')
                   INSERT_QUERY_SUPPORTED_OPTIONS options of
              Some e \<Rightarrow> Some e
            | None \<Rightarrow>
                if truthy (js_get options ''ignoreDuplicates'')
                   \<and> truthy (js_get options ''updateOnDuplicate'')
                then Some (JsError
                  ''Options ignoreDuplicates and updateOnDuplicate cannot be used together'')
                else None)
      else None)"

text \<open>\<^verbatim>\<open>isModelStatic(tableName) ? tableName : options?.model\<close>\<close>

definition insertModel :: "jsval \<Rightarrow> jsval \<Rightarrow> jsval" where
  "insertModel tableRef options =
     (case tableRef of JModel atts \<Rightarrow> tableRef | _ \<Rightarrow> js_get options ''model'')"

text \<open>
  \<^verbatim>\<open>insertOptions\<close>: the spread of the options with \<open>model\<close> and \<open>bindParam\<close> set, and
  \<open>bindParam\<close> cleared under a search path or in the exception mode.
\<close>

definition insertOptionsOf :: "generator \<Rightarrow> jsval \<Rightarrow> jsval \<Rightarrow> (string \<times> jsval) list" where
  "insertOptionsOf g tableRef options =
     (let insertOptions =
            AList.update ''bindParam''
              (if js_get options ''bindParam'' = JUndefined then JFun (internalBindParam g)
               else js_get options ''bindParam'')
              (AList.update ''model'' (insertModel tableRef options) (js_spread options))
      in if truthy (prependSearchPath g)
            \<or> truthy (js_get (JObj insertOptions) ''searchPath'')
            \<or> truthy (js_get (JObj insertOptions) ''exception'')
         then AList.update ''bindParam'' JUndefined insertOptions
         else insertOptions)"

text \<open>\<^verbatim>\<open>attributeMap.set(attribute?.columnName ?? column, attribute)\<close>\<close>

definition setAttribute :: "(jsval \<times> jsval) list \<Rightarrow> string \<times> jsval \<Rightarrow> (jsval \<times> jsval) list" where
  "setAttribute m entry =
     (let columnName = js_get (snd entry) ''columnName''
      in AList.update (if nullish columnName then JStr (fst entry) else columnName)
           (snd entry) m)"

text \<open>
  The attribute map: from the model's physical attributes when there is a model (a truthy
  model that is no model class has no \<^verbatim>\<open>modelDefinition\<close>, and the read raises), else
  from the attribute hash when one is given.
\<close>

definition insertAttributeMap :: "jsval \<Rightarrow> jsval \<Rightarrow> error + (jsval \<times> jsval) list" where
  "insertAttributeMap model attributeHash =
     (if truthy model
      then (case model of
              JModel atts \<Rightarrow> Inr (foldl setAttribute [] atts)
            | _ \<Rightarrow> Inl (TypeError ''Cannot read properties of undefined''))
      else if truthy attributeHash
      then Inr (foldl setAttribute [] (js_spread attributeHash))
      else Inr [])"

text \<open>\<^verbatim>\<open>attributeMap.get(column)\<close>\<close>

definition attributeOf :: "(jsval \<times> jsval) list \<Rightarrow> string \<Rightarrow> jsval" where
  "attributeOf attributeMap column =
     (case map_of attributeMap (JStr column) of Some a \<Rightarrow> a | None \<Rightarrow> JUndefined)"

text \<open>
  One iteration of the loop over \<^verbatim>\<open>Object.entries(valueHash)\<close>: the state is the value
  map (a \<^verbatim>\<open>Map\<close>: a key set again keeps its place) and the bind-parameter object, which
  the escaper may write to.
\<close>

definition insertEntry ::
  "generator \<Rightarrow> (jsval \<times> jsval) list \<Rightarrow> (string \<times> jsval) list
     \<Rightarrow> (string \<times> string) list \<times> bindings \<Rightarrow> string \<times> jsval
     \<Rightarrow> (string \<times> string) list \<times> bindings" where
  "insertEntry g attributeMap insertOptions state entry =
     (let column = fst entry; rowValue = snd entry; valueMap = fst state; b = snd state
      in if truthy (js_get (attributeOf attributeMap column) ''autoIncrement'') \<and> nullish rowValue
         then (AList.update column ''DEFAULT'' valueMap, b)
         else if rowValue = JUndefined
         then (valueMap, b)
         else (let escaped =
                     escape g rowValue
                       (JObj (AList.update ''type''
                                (js_get (attributeOf attributeMap column) ''type'') insertOptions)) b
               in (AList.update column (fst escaped) valueMap, snd escaped)))"

definition insertValues ::
  "generator \<Rightarrow> (jsval \<times> jsval) list \<Rightarrow> (string \<times> jsval) list \<Rightarrow> (string \<times> jsval) list
     \<Rightarrow> (string \<times> string) list \<Rightarrow> bindings \<Rightarrow> (string \<times> string) list \<times> bindings" where
  "insertValues g attributeMap insertOptions valueHash valueMap b =
     foldl (insertEntry g attributeMap insertOptions) (valueMap, b) valueHash"

text \<open>
  The escaper may throw. \<open>entryRaises\<close> is the error one iteration raises, if it raises:
  only the third branch calls the escaper. \<open>insertLoop\<close> is the loop as it runs: it stops
  at the first iteration that raises, and on a run where none does it is \<open>insertValues\<close>.
\<close>

definition entryRaises ::
  "generator \<Rightarrow> (jsval \<times> jsval) list \<Rightarrow> (string \<times> jsval) list
     \<Rightarrow> (string \<times> string) list \<times> bindings \<Rightarrow> string \<times> jsval \<Rightarrow> error option" where
  "entryRaises g attributeMap insertOptions state entry =
     (let column = fst entry; rowValue = snd entry; b = snd state
      in if truthy (js_get (attributeOf attributeMap column) ''autoIncrement'') \<and> nullish rowValue
         then None
         else if rowValue = JUndefined
         then None
         else escapeRaises g rowValue
                (JObj (AList.update ''type''
                         (js_get (attributeOf attributeMap column) ''type'') insertOptions)) b)"

fun insertLoop ::
  "generator \<Rightarrow> (jsval \<times> jsval) list \<Rightarrow> (string \<times> jsval) list \<Rightarrow> (string \<times> jsval) list
     \<Rightarrow> (string \<times> string) list \<times> bindings \<Rightarrow> error + (string \<times> string) list \<times> bindings" where
  "insertLoop g attributeMap insertOptions [] state = Inr state"
| "insertLoop g attributeMap insertOptions (entry # rest) state =
     (case entryRaises g attributeMap insertOptions state entry of
        Some e \<Rightarrow> Inl e
      | None \<Rightarrow>
          insertLoop g attributeMap insertOptions rest
            (insertEntry g attributeMap insertOptions state entry))"

definition returningFragment :: "(string \<times> jsval) list \<Rightarrow> string list \<Rightarrow> string" where
  "returningFragment insertOptions returnFields =
     (if truthy (js_get (JObj insertOptions) ''returning'')
      then joinSQLFragments [''RETURNING'', join '', '' returnFields]
      else [])"

definition bindResult :: "(string \<times> jsval) list \<Rightarrow> bindings \<Rightarrow> bindings option" where
  "bindResult insertOptions b =
     (if is_function (js_get (JObj insertOptions) ''bindParam'') then Some b else None)"

text \<open>
  The assembly of the statement from the value map. \<open>randomBytes8\<close> is what
  \<^verbatim>\<open>randomBytes(8)\<close> draws in this call; only the exception mode reads it.
\<close>

definition insertAssemble ::
  "generator \<Rightarrow> 8 word list \<Rightarrow> jsval \<Rightarrow> (string \<times> jsval) list \<Rightarrow> (jsval \<times> jsval) list
     \<Rightarrow> (string \<times> string) list \<Rightarrow> bindings \<Rightarrow> queryWithBindParams" where
  "insertAssemble g randomBytes8 tableRef insertOptions attributeMap valueMap b =
     (let returnFields = getReturnFields g insertOptions attributeMap;
          returning = returningFragment insertOptions returnFields
      in if length valueMap = 0
         then \<lparr>query = joinSQLFragments
                   [''INSERT INTO'', quoteTable g tableRef, ''DEFAULT VALUES'', returning],
               bind = bindResult insertOptions b\<rparr>
         else
           (let rowFragment = join '','' (map snd valueMap);
                columnFragment =
                  join '','' (map (\<lambda>column. quoteIdentifier g column) (map fst valueMap));
                conflictFragment =
                  (if truthy (js_get (JObj insertOptions) ''updateOnDuplicate'')
                   then generateUpdateOnDuplicateKeysFragment g insertOptions else [])
            in if truthy (js_get (JObj insertOptions) ''exception'')
               then
                 (let delimiter = ''$func_'' @ toString_hex randomBytes8 @ ''$''
                  in \<lparr>query = joinSQLFragments
                        [''CREATE OR REPLACE FUNCTION pg_temp.testfunc(OUT response ''
                           @ quoteTable g tableRef
                           @ '', OUT sequelize_caught_exception text) RETURNS RECORD AS'',
                         delimiter,
                         ''BEGIN INSERT INTO'',
                         quoteTable g tableRef,
                         ''('' @ columnFragment @ '')'',
                         ''VALUES'',
                         ''('' @ rowFragment @ '')'',
                         conflictFragment,
                         if truthy (js_get (JObj insertOptions) ''ignoreDuplicates'')
                         then ''ON CONFLICT DO NOTHING'' else [],
                         ''RETURNING * INTO response;'',
                         ''EXCEPTION WHEN unique_violation THEN GET STACKED DIAGNOSTICS sequelize_caught_exception = PG_EXCEPTION_DETAIL;'',
                         ''END;'',
                         delimiter,
                         ''LANGUAGE plpgsql;'',
                         ''SELECT (testfunc.response).''
                           @ join '', (testfunc.response).'' returnFields
                           @ '', testfunc.sequelize_caught_exception FROM pg_temp.testfunc();'',
                         ''DROP FUNCTION IF EXISTS pg_temp.testfunc()''],
                       bind = None\<rparr>)
               else \<lparr>query = joinSQLFragments
                        [''INSERT INTO'',
                         quoteTable g tableRef,
                         ''('' @ columnFragment @ '')'',
                         ''VALUES'',
                         ''('' @ rowFragment @ '')'',
                         conflictFragment,
                         if truthy (js_get (JObj insertOptions) ''ignoreDuplicates'')
                         then ''ON CONFLICT DO NOTHING'' else [],
                         returning],
                     bind = bindResult insertOptions b\<rparr>))"

definition pg_insertQuery ::
  "generator \<Rightarrow> 8 word list \<Rightarrow> jsval \<Rightarrow> jsval \<Rightarrow> jsval \<Rightarrow> jsval
     \<Rightarrow> error + queryWithBindParams" where
  "pg_insertQuery g randomBytes8 tableRef payload options attributeHash =
     (case insertCheckOptions g options of
        Some e \<Rightarrow> Inl e
      | None \<Rightarrow>
          (case payload of
             JObj entries \<Rightarrow>
               (let valueHash =
                      removeNullishValuesFromHash g entries
                        (case omitNull g of Some flag \<Rightarrow> flag | None \<Rightarrow> False);
                    insertOptions = insertOptionsOf g tableRef options
                in case insertAttributeMap (insertModel tableRef options) attributeHash of
                     Inl e \<Rightarrow> Inl e
                   | Inr attributeMap \<Rightarrow>
                       (case insertLoop g attributeMap insertOptions valueHash ([], []) of
                          Inl e \<Rightarrow> Inl e
                        | Inr (valueMap, b) \<Rightarrow>
                            Inr (insertAssemble g randomBytes8 tableRef insertOptions
                                   attributeMap valueMap b)))
           | _ \<Rightarrow> Inl (InvalidValue payload)))"

section \<open>The Db2 generator\<close>

text \<open>\<^verbatim>\<open>EMPTY_SET\<close>: the supported options of the operations Db2 gives no tuning.\<close>

definition EMPTY_SET :: "string list" where
  "EMPTY_SET = []"


definition db2_listSchemasQuery :: "generator \<Rightarrow> jsval \<Rightarrow> string" where
  \<open>db2_listSchemasQuery g options =
     (let schemasToSkip = map JStr (getTechnicalSchemaNames g) @ skipOf options
      in joinSQLFragments
           [''SELECT SCHEMANAME AS "schema" FROM SYSCAT.SCHEMATA'',
            ''WHERE SCHEMANAME NOT LIKE 'SYS%' AND SCHEMANAME NOT IN (''
              @ join '', '' (map (escapeValue g) schemasToSkip) @ '')''])\<close>

definition db2_listTablesQuery :: "generator \<Rightarrow> jsval \<Rightarrow> string" where
  \<open>db2_listTablesQuery g options =
     joinSQLFragments
       [''SELECT TABNAME AS "tableName",'',
        ''TRIM(TABSCHEMA) AS "schema"'',
        ''FROM SYSCAT.TABLES WHERE TYPE = 'T'' @ [CHR 0x27],
        if truthy (js_get options ''schema'')
        then ''AND TABSCHEMA = '' @ escapeValue g (js_get options ''schema'')
        else ''AND TABSCHEMA NOT LIKE 'SYS%' AND TABSCHEMA NOT IN (''
               @ join '', '' (map (escapeValue g) (map JStr (getTechnicalSchemaNames g)))
               @ '')'',
        ''ORDER BY TABSCHEMA, TABNAME'']\<close>

definition db2_renameTableQuery :: "generator \<Rightarrow> jsval \<Rightarrow> jsval \<Rightarrow> jsval \<Rightarrow> error + string" where
  "db2_renameTableQuery g beforeTableName afterTableName options =
     (case (if truthy options
            then rejectInvalidOptions g ''renameTableQuery'' (supportable g ''renameTableQuery'')
                   EMPTY_SET options
            else None) of
        Some e \<Rightarrow> Inl e
      | None \<Rightarrow>
          (let beforeTable = extractTableDetails g beforeTableName;
               afterTable = extractTableDetails g afterTableName
           in if schema beforeTable \<noteq> schema afterTable
              then Inl (JsError (''Moving tables between schemas is not supported by ''
                                   @ dialectName g @ '' dialect.''))
              else Inr (''RENAME TABLE '' @ quoteTable g beforeTableName @ '' TO ''
                          @ quoteIdentifier g (tableName afterTable))))"


text \<open>
  The guard of \<^verbatim>\<open>addIndexQuery\<close>, in the order JavaScript evaluates it:
  \<^verbatim>\<open>'include' in options\<close> (a \<^verbatim>\<open>TypeError\<close> on a primitive), \<^verbatim>\<open>!options.unique\<close>, then
  \<^verbatim>\<open>options.type?.toLowerCase() !== 'unique'\<close> (a \<^verbatim>\<open>TypeError\<close> when the type is neither
  nullish nor a string). \<open>None\<close> is the error raised, \<open>Some b\<close> the value of the test.
\<close>

definition DB2_INCLUDE_MESSAGE :: string where
  "DB2_INCLUDE_MESSAGE = ''DB2 does not support non-unique indexes with INCLUDE syntax.''"

fun hasInclude :: "jsval \<Rightarrow> bool option" where
  "hasInclude (JObj kv) = Some (''include'' \<in> set (map fst kv))"
| "hasInclude (JArr xs) = Some False"
| "hasInclude (JFun f) = Some False"
| "hasInclude (JModel atts) = Some False"
| "hasInclude v = None"

fun typeIsNotUnique :: "jsval \<Rightarrow> bool option" where
  "typeIsNotUnique JUndefined = Some True"
| "typeIsNotUnique JNull = Some True"
| "typeIsNotUnique (JStr s) = Some (toLowerCase s \<noteq> ''unique'')"
| "typeIsNotUnique v = None"

definition db2_addIndexQuery :: "generator \<Rightarrow> jsval \<Rightarrow> jsval \<Rightarrow> error + string" where
  "db2_addIndexQuery g tableOrModel options =
     (case hasInclude options of
        None \<Rightarrow> Inl (TypeError ''Cannot use the in operator on a primitive'')
      | Some False \<Rightarrow> superAddIndexQuery g tableOrModel options
      | Some True \<Rightarrow>
          if truthy (js_get options ''unique'')
          then superAddIndexQuery g tableOrModel options
          else (case typeIsNotUnique (js_get options ''type'') of
                  None \<Rightarrow> Inl (TypeError ''options.type?.toLowerCase is not a function'')
                | Some True \<Rightarrow> Inl (JsError DB2_INCLUDE_MESSAGE)
                | Some False \<Rightarrow> superAddIndexQuery g tableOrModel options))"

text \<open>\<open>randomBytes10\<close> is what \<^verbatim>\<open>randomBytes(10)\<close> draws in this call.\<close>

definition db2_generateTransactionId :: "8 word list \<Rightarrow> string" where
  "db2_generateTransactionId randomBytes10 = toString_hex randomBytes10"

section \<open>The IBM i generator\<close>

definition CREATE_TABLE_QUERY_SUPPORTED_OPTIONS :: "string list" where
  "CREATE_TABLE_QUERY_SUPPORTED_OPTIONS = [''uniqueKeys'']"

text \<open>\<^verbatim>\<open>String.prototype.includes\<close> and \<^verbatim>\<open>String.prototype.replace\<close> with a string pattern
  (the first occurrence only).\<close>

fun js_includes :: "string \<Rightarrow> string \<Rightarrow> bool" where
  "js_includes [] pat = (pat = [])"
| "js_includes (c # cs) pat = (take (length pat) (c # cs) = pat \<or> js_includes cs pat)"

fun replaceFirst :: "string \<Rightarrow> string \<Rightarrow> string \<Rightarrow> string" where
  "replaceFirst pat rep [] = (if pat = [] then rep else [])"
| "replaceFirst pat rep (c # cs) =
     (if take (length pat) (c # cs) = pat then rep @ drop (length pat) (c # cs)
      else c # replaceFirst pat rep cs)"

text \<open>
  A value inside a template literal (\<^verbatim>\<open>String(v)\<close>): a string prints itself, a plain
  object prints \<^verbatim>\<open>[object Object]\<close>, an array prints its elements joined by commas
  (\<^verbatim>\<open>null\<close> and \<^verbatim>\<open>undefined\<close> elements as nothing), an integer prints its decimal digits
  up to 21 of them, and a function or class prints its source text.
\<close>

fun templateString :: "generator \<Rightarrow> jsval \<Rightarrow> string" where
  "templateString g (JStr s) = s"
| "templateString g JUndefined = ''undefined''"
| "templateString g JNull = ''null''"
| "templateString g (JBool b) = (if b then ''true'' else ''false'')"
| "templateString g (JNum n) =
     (if \<bar>n\<bar> < 10 ^ 21
      then (if n < 0 then ''-'' @ showNat (nat (- n)) else showNat (nat n))
      else nativeToString g (JNum n))"
| "templateString g (JArr xs) =
     join '','' (map (\<lambda>x. if nullish x then [] else templateString g x) xs)"
| "templateString g (JObj kv) = ''[object Object]''"
| "templateString g (JFun f) = nativeToString g (JFun f)"
| "templateString g (JModel atts) = nativeToString g (JModel atts)"

text \<open>The column definitions: an object from column name to its SQL, in \<^verbatim>\<open>for ... in\<close> order.\<close>

definition primaryKeysOf :: "(string \<times> string) list \<Rightarrow> string list" where
  "primaryKeysOf attributes =
     map fst (filter (\<lambda>(attr, dataType). js_includes dataType ''PRIMARY KEY'') attributes)"

definition attrStrOf :: "generator \<Rightarrow> (string \<times> string) list \<Rightarrow> string list" where
  "attrStrOf g attributes =
     map (\<lambda>(attr, dataType).
            if js_includes dataType ''PRIMARY KEY''
            then quoteIdentifier g attr @ '' '' @ replaceFirst ''PRIMARY KEY'' [] dataType
            else quoteIdentifier g attr @ '' '' @ dataType)
         attributes"

text \<open>
  \<^verbatim>\<open>uniqueIsPrimary\<close>: the unique key's fields, sorted, against the sorted primary keys,
  element by element with \<^verbatim>\<open>===\<close>. (\<^verbatim>\<open>sort()\<close> orders strings by code unit; any total
  order gives the same answer to this test.)
\<close>

definition uniqueIsPrimary :: "string list \<Rightarrow> string list \<Rightarrow> bool" where
  "uniqueIsPrimary primaryKeys columnFields =
     (let sortedPrimaryKeys = sort primaryKeys;
          sortedColumnFields = sort columnFields
      in length sortedColumnFields = length primaryKeys
         \<and> list_all (\<lambda>index. sortedColumnFields ! index = sortedPrimaryKeys ! index)
              [0..<length sortedColumnFields])"

text \<open>
  What lodash's \<^verbatim>\<open>each\<close> passes to the callback: the elements of an array with their
  numeric indices, the entries of an object with their string keys.
\<close>

fun eachEntries :: "jsval \<Rightarrow> (jsval \<times> jsval) list" where
  "eachEntries (JArr xs) = zip (map (\<lambda>i. JNum (int i)) [0..<length xs]) xs"
| "eachEntries (JObj kv) = map (\<lambda>(k, v). (JStr k, v)) kv"
| "eachEntries v = []"

text \<open>\<^verbatim>\<open>[...columns.fields]\<close>: the column names of one unique key. The spread raises when
  \<^verbatim>\<open>fields\<close> is not iterable; fields that are not strings are outside the declared type
  of \<^verbatim>\<open>uniqueKeys\<close>.\<close>

fun stringOf :: "jsval \<Rightarrow> string option" where
  "stringOf (JStr s) = Some s"
| "stringOf v = None"

definition fieldsOf :: "jsval \<Rightarrow> error + string list" where
  "fieldsOf columns =
     (case js_get columns ''fields'' of
        JArr xs \<Rightarrow>
          (case those (map stringOf xs) of
             Some names \<Rightarrow> Inr names
           | None \<Rightarrow> Inl (IllTyped ''uniqueKeys: a field is not a string''))
      | JStr s \<Rightarrow> Inl (IllTyped ''uniqueKeys: fields is a string'')
      | _ \<Rightarrow> Inl (TypeError ''columns.fields is not iterable''))"

text \<open>The constraint clause one unique key adds to the attributes clause (empty when it
  is skipped).\<close>

definition uniqueKeyClause ::
  "generator \<Rightarrow> jsval \<Rightarrow> string list \<Rightarrow> jsval \<Rightarrow> string list \<Rightarrow> string" where
  "uniqueKeyClause g tableRef primaryKeys indexName columnFields =
     (if uniqueIsPrimary primaryKeys columnFields then []
      else
        (let name = (case indexName of
                       JStr n \<Rightarrow> n
                     | _ \<Rightarrow> ''uniq_'' @ templateString g tableRef @ ''_'' @ join ''_'' columnFields)
         in '', CONSTRAINT '' @ quoteIdentifier g name @ '' UNIQUE (''
              @ join '', '' (map (quoteIdentifier g) columnFields) @ '')''))"

fun uniqueKeyClauses ::
  "generator \<Rightarrow> jsval \<Rightarrow> string list \<Rightarrow> (jsval \<times> jsval) list \<Rightarrow> string \<Rightarrow> error + string" where
  "uniqueKeyClauses g tableRef primaryKeys [] attributesClause = Inr attributesClause"
| "uniqueKeyClauses g tableRef primaryKeys ((indexName, columns) # rest) attributesClause =
     (case fieldsOf columns of
        Inl e \<Rightarrow> Inl e
      | Inr columnFields \<Rightarrow>
          uniqueKeyClauses g tableRef primaryKeys rest
            (attributesClause @ uniqueKeyClause g tableRef primaryKeys indexName columnFields))"

definition ibmi_createTableQuery ::
  "generator \<Rightarrow> jsval \<Rightarrow> (string \<times> string) list \<Rightarrow> jsval \<Rightarrow> error + string" where
  "ibmi_createTableQuery g tableRef attributes options =
     (case (if truthy options
            then rejectInvalidOptions g ''createTableQuery'' (supportable g ''createTableQuery'')
                   CREATE_TABLE_QUERY_SUPPORTED_OPTIONS options
            else None) of
        Some e \<Rightarrow> Inl e
      | None \<Rightarrow>
          (let primaryKeys = primaryKeysOf attributes;
               pkString = join '', '' (map (quoteIdentifier g) primaryKeys)
           in case (if truthy (js_get options ''uniqueKeys'')
                    then uniqueKeyClauses g tableRef primaryKeys
                           (eachEntries (js_get options ''uniqueKeys''))
                           (join '', '' (attrStrOf g attributes))
                    else Inr (join '', '' (attrStrOf g attributes))) of
                Inl e \<Rightarrow> Inl e
              | Inr withUnique \<Rightarrow>
                  (let attributesClause =
                         (if length pkString > 0
                          then withUnique @ '', PRIMARY KEY ('' @ pkString @ '')''
                          else withUnique)
                   in Inr (''BEGIN\<newline>    DECLARE CONTINUE HANDLER FOR SQLSTATE VALUE '42710'\<newline>      BEGIN END;\<newline>      CREATE TABLE ''
                             @ quoteTable g tableRef @ '' ('' @ attributesClause
                             @ '');\<newline>      END''))))"

subsection \<open>attributeToSQL and addColumnQuery\<close>


















section \<open>Index names\<close>

text \<open>
  Modelled from the spec: \<^verbatim>\<open>generateIndexName\<close> (utils/string) is not among the files;
  the derived name is \<^verbatim>\<open><tableName>_<field1>_<field2>_..._<fieldN>\<close>.
\<close>

definition generateIndexName_spec :: "tableDetails \<Rightarrow> string list \<Rightarrow> string" where
  "generateIndexName_spec table fieldNames = tableName table @ ''_'' @ join ''_'' fieldNames"

text \<open>
  Modelled from the spec: the add path (\<^verbatim>\<open>addIndexQuery\<close> of the abstract generator) is
  not among the files; its name resolution uses the caller's name when it is a string and
  derives the name from the table and the field list otherwise.
\<close>

definition addIndexName_spec :: "generator \<Rightarrow> jsval \<Rightarrow> jsval \<Rightarrow> string list \<Rightarrow> string" where
  "addIndexName_spec g tableRef nameOption fieldNames =
     (case nameOption of
        JStr n \<Rightarrow> n
      | _ \<Rightarrow> generateIndexName_spec (extractTableDetails g tableRef) fieldNames)"

definition withSpecIndexName :: "generator \<Rightarrow> generator" where
  "withSpecIndexName g = g\<lparr>generateIndexName := generateIndexName_spec\<rparr>"

section \<open>The claim of the spec on unique keys, in its own words\<close>

text \<open>
  The spec's reading of "a unique key that duplicates the primary key's column set":
  case-insensitive on the column names, order-insensitive through a sorted comparison.
  The code's test is \<open>uniqueIsPrimary\<close> above.
\<close>

definition sameColumnSet_spec :: "string list \<Rightarrow> string list \<Rightarrow> bool" where
  "sameColumnSet_spec primaryKeys columnFields =
     (sort (map toLowerCase columnFields) = sort (map toLowerCase primaryKeys))"

section \<open>A sample generator\<close>

text \<open>
  An instance of the collaborators on which the operations are evaluated at concrete
  inputs. No theorem with a variable generator depends on it.
\<close>

text \<open>
  Modelled from the spec: \<^verbatim>\<open>quoteIdentifier\<close> is not among the files; it wraps an
  identifier in the dialect's quote character, doubling any embedded quote character.
\<close>

definition sampleQuoteIdentifier :: "string \<Rightarrow> string" where
  "sampleQuoteIdentifier name =
     [CHR 0x22] @ concat (map (\<lambda>c. if c = CHR 0x22 then [c, c] else [c]) name) @ [CHR 0x22]"

text \<open>
  Modelled from the spec: \<^verbatim>\<open>escape\<close> is not among the files; strings are quoted and
  internal quotes escaped, booleans render as truth literals; here \<^verbatim>\<open>null\<close> and
  \<^verbatim>\<open>undefined\<close> render as \<^verbatim>\<open>NULL\<close>. When the options carry a bind-parameter function,
  the value (\<^verbatim>\<open>null\<close> too) is stored in the bind collection and a positional marker is
  returned. The sample escaper never throws.
\<close>

fun sampleLiteral :: "jsval \<Rightarrow> string" where
  "sampleLiteral (JStr s) =
     [CHR 0x27] @ concat (map (\<lambda>c. if c = CHR 0x27 then [c, c] else [c]) s) @ [CHR 0x27]"
| "sampleLiteral (JBool b) = (if b then ''true'' else ''false'')"
| "sampleLiteral (JNum n) = (if n < 0 then ''-'' @ showNat (nat (- n)) else showNat (nat n))"
| "sampleLiteral v = ''NULL''"

definition sampleEscape :: "jsval \<Rightarrow> jsval \<Rightarrow> bindings \<Rightarrow> string \<times> bindings" where
  "sampleEscape v options b =
     (if is_function (js_get options ''bindParam'')
      then (''$sequelize_'' @ showNat (Suc (length b)),
            b @ [(''sequelize_'' @ showNat (Suc (length b)), v)])
      else (sampleLiteral v, b))"

text \<open>
  Modelled from the spec: \<^verbatim>\<open>extractTableDetails\<close> and \<^verbatim>\<open>quoteTable\<close> are not among the
  files; a table is a bare name or a record of table name and schema, the schema defaults
  to the dialect's default schema, and \<^verbatim>\<open>quoteTable\<close> renders \<^verbatim>\<open>schema.table\<close> with each
  segment quoted, omitting the schema segment of an unscoped table.
\<close>

definition sampleExtractTableDetails :: "jsval \<Rightarrow> tableDetails" where
  "sampleExtractTableDetails tableRef =
     (case tableRef of
        JStr s \<Rightarrow> \<lparr>tableName = s, schema = ''public''\<rparr>
      | _ \<Rightarrow>
          \<lparr>tableName = (case js_get tableRef ''tableName'' of JStr s \<Rightarrow> s | _ \<Rightarrow> []),
           schema = (case js_get tableRef ''schema'' of JStr s \<Rightarrow> s | _ \<Rightarrow> ''public'')\<rparr>)"

definition sampleQuoteTable :: "jsval \<Rightarrow> string" where
  "sampleQuoteTable tableRef =
     (case tableRef of
        JStr s \<Rightarrow> sampleQuoteIdentifier s
      | _ \<Rightarrow>
          (case js_get tableRef ''schema'' of
             JStr s \<Rightarrow> sampleQuoteIdentifier s @ ''.''
                        @ sampleQuoteIdentifier (tableName (sampleExtractTableDetails tableRef))
           | _ \<Rightarrow> sampleQuoteIdentifier (tableName (sampleExtractTableDetails tableRef))))"

definition sampleRemoveNullish :: "(string \<times> jsval) list \<Rightarrow> bool \<Rightarrow> (string \<times> jsval) list" where
  "sampleRemoveNullish hash omit =
     (if omit then filter (\<lambda>(k, v). \<not> nullish v) hash else hash)"

definition sampleGenerator :: generator where
  "sampleGenerator =
     \<lparr>dialectName = ''postgres'',
      escape = sampleEscape,
      escapeRaises = (\<lambda>v options b. None),
      quoteIdentifier = sampleQuoteIdentifier,
      quoteTable = sampleQuoteTable,
      extractTableDetails = sampleExtractTableDetails,
      supportable = (\<lambda>operation. []),
      rejectInvalidOptions = rejectInvalidOptions_spec ''postgres'',
      generateIndexName = generateIndexName_spec,
      removeNullishValuesFromHash = sampleRemoveNullish,
      getTechnicalDatabaseNames = [''postgres''],
      getTechnicalSchemaNames = [''information_schema'', ''tiger'', ''tiger_data'', ''topology''],
      internalBindParam = 0,
      getReturnFields = (\<lambda>insertOptions attributeMap. [''*'']),
      generateUpdateOnDuplicateKeysFragment = (\<lambda>insertOptions. ''ON CONFLICT DO UPDATE''),
      omitNull = None,
      prependSearchPath = JUndefined,
      superAddIndexQuery = (\<lambda>tableRef options. Inr ''CREATE INDEX''),
      nativeToString = (\<lambda>v. ''function () { [native code] }'')\<rparr>"



section \<open>Lemmas on the JavaScript helpers\<close>

lemma truthy_get_truthy: "truthy (js_get options k) \<Longrightarrow> truthy options"
  by (cases options) simp_all

lemma js_get_update:
  "js_get (JObj (AList.update k v al)) k' = (if k' = k then v else js_get (JObj al) k')"
  by (simp add: update_conv')

lemma js_get_spread: "js_get (JObj (js_spread options)) k = js_get options k"
  by (cases options) simp_all

section \<open>Renaming a table across schemas\<close>

text \<open>
  Claim C7. When the schemas of the source and the target table differ: the Postgres
  generator fails when \<^verbatim>\<open>options.changeSchema\<close> is absent or falsy; with the flag and an
  unchanged table name it returns the schema-move statement
  \<^verbatim>\<open>ALTER TABLE ... SET SCHEMA ...\<close>; renaming the table and moving it at once fails,
  with or without the flag; and the Db2 generator fails whatever the options are (either
  the option validator raises or the schema test does).
\<close>

theorem rename_across_schemas:
  assumes "schema (extractTableDetails g beforeTableName) \<noteq> schema (extractTableDetails g afterTableName)"
  shows "(\<not> truthy (js_get options ''changeSchema'') \<longrightarrow>
            pg_renameTableQuery g beforeTableName afterTableName options
              = Inl (JsError ''To move a table between schemas, you must set `options.changeSchema` to true.''))
       \<and> (truthy (js_get options ''changeSchema'')
            \<and> tableName (extractTableDetails g beforeTableName) = tableName (extractTableDetails g afterTableName) \<longrightarrow>
            pg_renameTableQuery g beforeTableName afterTableName options
              = Inr (''ALTER TABLE '' @ quoteTable g beforeTableName @ '' SET SCHEMA ''
                       @ quoteIdentifier g (schema (extractTableDetails g afterTableName))))
       \<and> (tableName (extractTableDetails g beforeTableName) \<noteq> tableName (extractTableDetails g afterTableName) \<longrightarrow>
            (\<exists>e. pg_renameTableQuery g beforeTableName afterTableName options = Inl e))
       \<and> (\<exists>e. db2_renameTableQuery g beforeTableName afterTableName options = Inl e)"
  using assms
  by (simp add: pg_renameTableQuery_def db2_renameTableQuery_def Let_def split: option.split)

theorem rename_across_schemas_witness:
  "pg_renameTableQuery sampleGenerator
     (JObj [(''tableName'', JStr ''t''), (''schema'', JStr ''a'')])
     (JObj [(''tableName'', JStr ''t''), (''schema'', JStr ''b'')]) JUndefined
     = Inl (JsError ''To move a table between schemas, you must set `options.changeSchema` to true.'')
   \<and> pg_renameTableQuery sampleGenerator
     (JObj [(''tableName'', JStr ''t''), (''schema'', JStr ''a'')])
     (JObj [(''tableName'', JStr ''t''), (''schema'', JStr ''b'')])
     (JObj [(''changeSchema'', JBool True)])
     = Inr ''ALTER TABLE \"a\".\"t\" SET SCHEMA \"b\"''"
  using rename_across_schemas [of sampleGenerator
     "JObj [(''tableName'', JStr ''t''), (''schema'', JStr ''a'')]"
     "JObj [(''tableName'', JStr ''t''), (''schema'', JStr ''b'')]" JUndefined]
   rename_across_schemas [of sampleGenerator
     "JObj [(''tableName'', JStr ''t''), (''schema'', JStr ''a'')]"
     "JObj [(''tableName'', JStr ''t''), (''schema'', JStr ''b'')]" "JObj [(''changeSchema'', JBool True)]"]
  by (simp add: sampleGenerator_def sampleExtractTableDetails_def sampleQuoteTable_def sampleQuoteIdentifier_def)

section \<open>The two duplicate modes of insertQuery exclude each other\<close>

text \<open>
  Claim C2. For every table, payload and options and every generator: when both
  \<^verbatim>\<open>options.ignoreDuplicates\<close> and \<^verbatim>\<open>options.updateOnDuplicate\<close> are set (truthy),
  \<^verbatim>\<open>insertQuery\<close> fails before any SQL is built, whatever the other options are: with
  the validator's error when the validator rejects the options, and with the exclusivity
  error otherwise.
\<close>

theorem insert_exclusive_modes:
  assumes "truthy (js_get options ''ignoreDuplicates'')"
      and "truthy (js_get options ''updateOnDuplicate'')"
  shows "pg_insertQuery g randomBytes8 tableRef payload options attributeHash
           = Inl (case rejectInvalidOptions g ''insertQuery'' (supportable g ''insertQuery'')
                         INSERT_QUERY_SUPPORTED_OPTIONS options of
                    Some e \<Rightarrow> e
                  | None \<Rightarrow> JsError ''Options ignoreDuplicates and updateOnDuplicate cannot be used together'')"
  using assms truthy_get_truthy [OF assms(1)]
  by (simp add: pg_insertQuery_def insertCheckOptions_def split: option.split)

theorem insert_exclusive_modes_witness:
  "pg_insertQuery sampleGenerator [] (JStr ''t'') (JObj [(''id'', JNum 1)])
     (JObj [(''ignoreDuplicates'', JBool True), (''updateOnDuplicate'', JArr [JStr ''id'']), (''returning'', JBool True)])
     JUndefined
     = Inl (JsError ''Options ignoreDuplicates and updateOnDuplicate cannot be used together'')"
  using insert_exclusive_modes [of "JObj [(''ignoreDuplicates'', JBool True), (''updateOnDuplicate'', JArr [JStr ''id'']), (''returning'', JBool True)]"
     sampleGenerator "[]" "JStr ''t''" "JObj [(''id'', JNum 1)]" JUndefined]
  by (simp add: sampleGenerator_def rejectInvalidOptions_spec_def INSERT_QUERY_SUPPORTED_OPTIONS_def)

section \<open>Db2: no INCLUDE on a non-unique index\<close>

text \<open>
  Claim C3. On Db2, when the options of \<^verbatim>\<open>addIndexQuery\<close> have an \<^verbatim>\<open>include\<close> key and
  \<^verbatim>\<open>options.unique\<close> is falsy: if \<^verbatim>\<open>options.type\<close> is absent, nullish or a string that
  is not \<^verbatim>\<open>unique\<close> in any letter case, the call fails with the message naming the rule;
  and whatever \<^verbatim>\<open>options.type\<close> is, unless it is the string \<^verbatim>\<open>unique\<close> in some letter
  case, the call fails. In both cases the result is the same for every superclass
  \<^verbatim>\<open>addIndexQuery\<close>: the SQL assembly is not reached.
\<close>

theorem db2_addIndex_include_nonunique:
  assumes "options = JObj kv" and "''include'' \<in> fst ` set kv"
      and "\<not> truthy (js_get options ''unique'')"
  shows "(nullish (js_get options ''type'')
            \<or> (\<exists>s. js_get options ''type'' = JStr s \<and> toLowerCase s \<noteq> ''unique'') \<longrightarrow>
          db2_addIndexQuery (g\<lparr>superAddIndexQuery := super\<rparr>) tableOrModel options
            = Inl (JsError ''DB2 does not support non-unique indexes with INCLUDE syntax.''))
       \<and> ((\<forall>s. js_get options ''type'' = JStr s \<longrightarrow> toLowerCase s \<noteq> ''unique'') \<longrightarrow>
          (\<exists>e. db2_addIndexQuery (g\<lparr>superAddIndexQuery := super\<rparr>) tableOrModel options = Inl e))"
proof -
  have inc: "hasInclude options = Some True"
    using assms(1,2) by simp
  show ?thesis
  proof (cases "js_get options ''type''")
    case (JStr s)
    then show ?thesis
      using inc assms(3) by (simp add: db2_addIndexQuery_def DB2_INCLUDE_MESSAGE_def)
  qed (use inc assms(3) in \<open>simp_all add: db2_addIndexQuery_def DB2_INCLUDE_MESSAGE_def\<close>)
qed

theorem db2_addIndex_include_nonunique_witness:
  "db2_addIndexQuery
     (sampleGenerator\<lparr>superAddIndexQuery := (\<lambda>t opts. Inl (JsError ''assembly reached''))\<rparr>)
     (JStr ''users'')
     (JObj [(''name'', JStr ''user_username''), (''fields'', JArr [JStr ''username'']),
            (''include'', JArr [JStr ''first_name'', JStr ''last_name'']), (''unique'', JBool False)])
     = Inl (JsError ''DB2 does not support non-unique indexes with INCLUDE syntax.'')"
  using db2_addIndex_include_nonunique [where
     options = "JObj [(''name'', JStr ''user_username''), (''fields'', JArr [JStr ''username'']),
            (''include'', JArr [JStr ''first_name'', JStr ''last_name'']), (''unique'', JBool False)]"
     and kv = "[(''name'', JStr ''user_username''), (''fields'', JArr [JStr ''username'']),
            (''include'', JArr [JStr ''first_name'', JStr ''last_name'']), (''unique'', JBool False)]"
     and g = sampleGenerator and super = "\<lambda>t opts. Inl (JsError ''assembly reached'')"
     and tableOrModel = "JStr ''users''"]
  by simp

section \<open>Lemmas on the insert loop\<close>


lemma insertValues_Nil [simp]: "insertValues g am io [] vm b = (vm, b)"
  by (simp add: insertValues_def)

lemma insertValues_Cons:
  "insertValues g am io (entry # rest) vm b =
     insertValues g am io rest (fst (insertEntry g am io (vm, b) entry))
       (snd (insertEntry g am io (vm, b) entry))"
  by (simp add: insertValues_def)






lemma update_nonempty: "AList.update k v al \<noteq> []"
  by (cases al) auto

lemma insertEntry_empty:
  "fst (insertEntry g am io (vm, b) entry) = [] \<Longrightarrow>
     vm = [] \<and> entryRaises g am io (vm, b) entry = None"
  by (auto simp: insertEntry_def entryRaises_def Let_def update_nonempty split: if_splits)

lemma insertValues_nonempty: "fst (insertValues g am io vh vm b) = [] \<Longrightarrow> vm = []"
proof (induction vh arbitrary: vm b)
  case Nil
  then show ?case by simp
next
  case (Cons entry rest)
  from Cons.prems have "fst (insertEntry g am io (vm, b) entry) = []"
    by (auto simp: insertValues_Cons dest: Cons.IH)
  then show ?case by (simp add: insertEntry_empty)
qed

lemma insertLoop_empty:
  "fst (insertValues g am io vh vm b) = [] \<Longrightarrow>
     insertLoop g am io vh (vm, b) = Inr (insertValues g am io vh vm b)"
proof (induction vh arbitrary: vm b)
  case Nil
  then show ?case by simp
next
  case (Cons entry rest)
  let ?st = "insertEntry g am io (vm, b) entry"
  from Cons.prems have rest: "fst (insertValues g am io rest (fst ?st) (snd ?st)) = []"
    by (simp add: insertValues_Cons)
  then have "fst ?st = []" by (rule insertValues_nonempty)
  then have none: "entryRaises g am io (vm, b) entry = None"
    by (simp add: insertEntry_empty)
  show ?case
    using Cons.IH [OF rest] by (simp add: none insertValues_Cons)
qed



lemma insertOptions_exception:
  "js_get (JObj (insertOptionsOf g tableRef options)) ''exception'' = js_get options ''exception''"
  by (simp add: insertOptionsOf_def Let_def js_get_update js_get_spread del: js_get.simps)

lemma insertOptions_returning:
  "js_get (JObj (insertOptionsOf g tableRef options)) ''returning'' = js_get options ''returning''"
  by (simp add: insertOptionsOf_def Let_def js_get_update js_get_spread del: js_get.simps)

section \<open>Lemmas on the hexadecimal encoding\<close>

lemma hex_digit_inj: "i < 16 \<Longrightarrow> j < 16 \<Longrightarrow> hex_digit i = hex_digit j \<Longrightarrow> i = j"
proof -
  assume i: "i < 16" and j: "j < 16" and e: "hex_digit i = hex_digit j"
  have d: "distinct ''0123456789abcdef''" by simp
  have "''0123456789abcdef'' ! i = ''0123456789abcdef'' ! j"
    using e i j by (simp add: hex_digit_def)
  then show "i = j"
    using nth_eq_iff_index_eq [OF d, of i j] i j by simp
qed

lemma hex_byte_inj: "hex_byte a = hex_byte b \<Longrightarrow> a = b"
proof -
  assume e: "hex_byte a = hex_byte b"
  have la: "unat a < 256" and lb: "unat b < 256"
    using unsigned_less [of a, where ?'a = nat] unsigned_less [of b, where ?'a = nat] by simp_all
  then have "unat a div 16 < 16" "unat b div 16 < 16" "unat a mod 16 < 16" "unat b mod 16 < 16"
    by simp_all
  moreover from e have "hex_digit (unat a div 16) = hex_digit (unat b div 16)"
      "hex_digit (unat a mod 16) = hex_digit (unat b mod 16)"
    by (simp_all add: hex_byte_def)
  ultimately have "unat a div 16 = unat b div 16" "unat a mod 16 = unat b mod 16"
    by (blast intro: hex_digit_inj)+
  then have "unat a = unat b"
    by (metis div_mult_mod_eq)
  then show "a = b" by (simp add: word_unat_eq_iff)
qed

lemma toString_hex_inj: "toString_hex xs = toString_hex ys \<Longrightarrow> xs = ys"
proof (induction xs arbitrary: ys)
  case Nil
  then show ?case by (cases ys) (simp_all add: toString_hex_def hex_byte_def)
next
  case (Cons x xs)
  then show ?case
  proof (cases ys)
    case Nil
    with Cons.prems show ?thesis by (simp add: toString_hex_def hex_byte_def)
  next
    case (Cons y ys')
    with Cons.prems have "hex_byte x = hex_byte y" "toString_hex xs = toString_hex ys'"
      by (simp_all add: toString_hex_def hex_byte_def)
    with Cons.IH Cons show ?thesis by (auto dest: hex_byte_inj)
  qed
qed

lemma hex_digit_not_dollar: "hex_digit n \<noteq> CHR ''$''"
proof -
  have "n mod 16 < length ''0123456789abcdef''" by simp
  then have "''0123456789abcdef'' ! (n mod 16) \<in> set ''0123456789abcdef''"
    by (rule nth_mem)
  then show ?thesis
    unfolding hex_digit_def by auto
qed

lemma toString_hex_no_dollar: "CHR ''$'' \<notin> set (toString_hex xs)"
  using hex_digit_not_dollar [symmetric]
  by (auto simp: toString_hex_def hex_byte_def)

lemma delimiter_inj:
  assumes "toString_hex xs @ CHR ''$'' # s = toString_hex ys @ CHR ''$'' # t"
  shows "xs = ys"
proof -
  have "takeWhile (\<lambda>c. c \<noteq> CHR ''$'') (toString_hex zs @ CHR ''$'' # u) = toString_hex zs"
    for zs u
    using toString_hex_no_dollar [of zs] by (auto simp: takeWhile_tail takeWhile_eq_all_conv)
  with assms have "toString_hex xs = toString_hex ys"
    by metis
  then show ?thesis by (rule toString_hex_inj)
qed

section \<open>Lemmas on the assembly of the insert statement\<close>

lemma joinSQLFragments_RETURNING: "joinSQLFragments [''RETURNING'', x] \<noteq> []"
  by (simp add: joinSQLFragments_def)

lemma pg_insertQuery_runs:
  assumes "insertCheckOptions g options = None"
      and "insertAttributeMap (insertModel tableRef options) attributeHash = Inr attributeMap"
      and "insertLoop g attributeMap (insertOptionsOf g tableRef options)
             (removeNullishValuesFromHash g entries
                (case omitNull g of Some flag \<Rightarrow> flag | None \<Rightarrow> False)) ([], [])
           = Inr (valueMap, b)"
  shows "pg_insertQuery g drawn tableRef (JObj entries) options attributeHash =
           Inr (insertAssemble g drawn tableRef (insertOptionsOf g tableRef options) attributeMap
                  valueMap b)"
  using assms by (simp add: pg_insertQuery_def Let_def)




lemma insertAssemble_exception:
  assumes "valueMap \<noteq> []" and "truthy (js_get (JObj insertOptions) ''exception'')"
  shows "insertAssemble g drawn tableRef insertOptions attributeMap valueMap b =
           \<lparr>query = joinSQLFragments
              [''CREATE OR REPLACE FUNCTION pg_temp.testfunc(OUT response ''
                 @ quoteTable g tableRef
                 @ '', OUT sequelize_caught_exception text) RETURNS RECORD AS'',
               ''$func_'' @ toString_hex drawn @ ''$'',
               ''BEGIN INSERT INTO'',
               quoteTable g tableRef,
               ''('' @ join '','' (map (quoteIdentifier g) (map fst valueMap)) @ '')'',
               ''VALUES'',
               ''('' @ join '','' (map snd valueMap) @ '')'',
               if truthy (js_get (JObj insertOptions) ''updateOnDuplicate'')
               then generateUpdateOnDuplicateKeysFragment g insertOptions else [],
               if truthy (js_get (JObj insertOptions) ''ignoreDuplicates'')
               then ''ON CONFLICT DO NOTHING'' else [],
               ''RETURNING * INTO response;'',
               ''EXCEPTION WHEN unique_violation THEN GET STACKED DIAGNOSTICS sequelize_caught_exception = PG_EXCEPTION_DETAIL;'',
               ''END;'',
               ''$func_'' @ toString_hex drawn @ ''$'',
               ''LANGUAGE plpgsql;'',
               ''SELECT (testfunc.response).''
                 @ join '', (testfunc.response).'' (getReturnFields g insertOptions attributeMap)
                 @ '', testfunc.sequelize_caught_exception FROM pg_temp.testfunc();'',
               ''DROP FUNCTION IF EXISTS pg_temp.testfunc()''],
            bind = None\<rparr>"
  using assms by (simp add: insertAssemble_def Let_def del: js_get.simps)

lemma insertAssemble_random:
  "\<not> truthy (js_get (JObj io) ''exception'') \<or> vm = [] \<Longrightarrow>
     insertAssemble g drawn t io am vm b = insertAssemble g other t io am vm b"
  by (auto simp: insertAssemble_def Let_def)

lemma insert_independent_of_random:
  "\<not> truthy (js_get options ''exception'') \<Longrightarrow>
     pg_insertQuery g drawn tableRef payload options attributeHash
       = pg_insertQuery g other tableRef payload options attributeHash"
proof -
  assume e: "\<not> truthy (js_get options ''exception'')"
  have same: "insertAssemble g drawn tableRef (insertOptionsOf g tableRef options) am vm b
      = insertAssemble g other tableRef (insertOptionsOf g tableRef options) am vm b" for am vm b
    using e by (intro insertAssemble_random) (simp add: insertOptions_exception del: js_get.simps)
  show ?thesis
    by (simp add: pg_insertQuery_def Let_def same
        split: option.split jsval.split sum.split prod.split)
qed

lemma insert_failure_independent_of_random:
  "pg_insertQuery g drawn tableRef payload options attributeHash = Inl e \<Longrightarrow>
     pg_insertQuery g other tableRef payload options attributeHash = Inl e"
  by (auto simp: pg_insertQuery_def Let_def
      split: option.splits jsval.splits sum.splits prod.splits)

lemma joinSQLFragments_Cons:
  "x \<noteq> [] \<Longrightarrow> y \<noteq> [] \<Longrightarrow>
     joinSQLFragments (x # y # rest) = x @ '' '' @ joinSQLFragments (y # rest)"
  by (simp add: joinSQLFragments_def)

lemma joinSQLFragments_head:
  "y \<noteq> [] \<Longrightarrow> \<exists>r. joinSQLFragments (y # rest) = y @ r"
  by (cases "filter (\<lambda>s. s \<noteq> []) rest") (simp_all add: joinSQLFragments_def)

lemma exception_query_inj:
  assumes "a \<noteq> []"
      and "joinSQLFragments (a # (''$func_'' @ toString_hex xs @ ''$'') # rest)
           = joinSQLFragments (a # (''$func_'' @ toString_hex ys @ ''$'') # rest')"
  shows "xs = ys"
proof -
  obtain r where r: "joinSQLFragments ((''$func_'' @ toString_hex xs @ ''$'') # rest)
      = (''$func_'' @ toString_hex xs @ ''$'') @ r"
    using joinSQLFragments_head [of "''$func_'' @ toString_hex xs @ ''$''" rest] by auto
  obtain r' where r': "joinSQLFragments ((''$func_'' @ toString_hex ys @ ''$'') # rest')
      = (''$func_'' @ toString_hex ys @ ''$'') @ r'"
    using joinSQLFragments_head [of "''$func_'' @ toString_hex ys @ ''$''" rest'] by auto
  have "joinSQLFragments (a # (''$func_'' @ toString_hex xs @ ''$'') # rest)
      = a @ '' '' @ (''$func_'' @ toString_hex xs @ ''$'') @ r"
    using joinSQLFragments_Cons [OF assms(1), of "''$func_'' @ toString_hex xs @ ''$''" rest] r
    by simp
  moreover have "joinSQLFragments (a # (''$func_'' @ toString_hex ys @ ''$'') # rest')
      = a @ '' '' @ (''$func_'' @ toString_hex ys @ ''$'') @ r'"
    using joinSQLFragments_Cons [OF assms(1), of "''$func_'' @ toString_hex ys @ ''$''" rest'] r'
    by simp
  ultimately have "toString_hex xs @ CHR ''$'' # r = toString_hex ys @ CHR ''$'' # r'"
    using assms(2) by simp
  then show ?thesis by (rule delimiter_inj)
qed

lemma exception_result_inj:
  assumes "\<lparr>query = joinSQLFragments (a # (''$func_'' @ toString_hex xs @ ''$'') # rest),
            bind = bx\<rparr>
           = \<lparr>query = joinSQLFragments (a # (''$func_'' @ toString_hex ys @ ''$'') # rest'),
              bind = bx'\<rparr>"
      and "a \<noteq> []"
  shows "xs = ys"
proof -
  from assms(1) have
    "query \<lparr>query = joinSQLFragments (a # (''$func_'' @ toString_hex xs @ ''$'') # rest),
            bind = bx\<rparr>
     = query \<lparr>query = joinSQLFragments (a # (''$func_'' @ toString_hex ys @ ''$'') # rest'),
              bind = bx'\<rparr>"
    by (rule arg_cong)
  then have "joinSQLFragments (a # (''$func_'' @ toString_hex xs @ ''$'') # rest)
      = joinSQLFragments (a # (''$func_'' @ toString_hex ys @ ''$'') # rest')"
    by (simp only: queryWithBindParams.select_convs)
  with assms(2) show ?thesis by (rule exception_query_inj)
qed

section \<open>insertQuery: undefined and null values\<close>




section \<open>insertQuery: the empty value map\<close>

text \<open>
  Claim C10. When the options pass the checks, the attribute map is built and the loop
  leaves the value map empty, \<^verbatim>\<open>insertQuery\<close> returns
  \<^verbatim>\<open>INSERT INTO <quoted table> DEFAULT VALUES\<close>, followed by the \<^verbatim>\<open>RETURNING\<close> fragment
  when \<^verbatim>\<open>options.returning\<close> is set, and no column or value list.
\<close>

theorem insert_default_values:
  assumes "insertCheckOptions g options = None"
      and "insertAttributeMap (insertModel tableRef options) attributeHash = Inr attributeMap"
      and "fst (insertValues g attributeMap (insertOptionsOf g tableRef options)
                  (removeNullishValuesFromHash g entries
                     (case omitNull g of Some flag \<Rightarrow> flag | None \<Rightarrow> False)) [] []) = []"
  shows "\<exists>r. pg_insertQuery g randomBytes8 tableRef (JObj entries) options attributeHash = Inr r
          \<and> query r = joinSQLFragments
               [''INSERT INTO'', quoteTable g tableRef, ''DEFAULT VALUES'',
                if truthy (js_get options ''returning'')
                then joinSQLFragments [''RETURNING'',
                       join '', '' (getReturnFields g (insertOptionsOf g tableRef options) attributeMap)]
                else []]
          \<and> (quoteTable g tableRef \<noteq> [] \<and> \<not> truthy (js_get options ''returning'') \<longrightarrow>
               query r = ''INSERT INTO '' @ quoteTable g tableRef @ '' DEFAULT VALUES'')
          \<and> (quoteTable g tableRef \<noteq> [] \<and> truthy (js_get options ''returning'') \<longrightarrow>
               query r = ''INSERT INTO '' @ quoteTable g tableRef @ '' DEFAULT VALUES ''
                 @ joinSQLFragments [''RETURNING'',
                       join '', '' (getReturnFields g (insertOptionsOf g tableRef options) attributeMap)])"
proof -
  let ?io = "insertOptionsOf g tableRef options"
  let ?vh = "removeNullishValuesFromHash g entries
               (case omitNull g of Some flag \<Rightarrow> flag | None \<Rightarrow> False)"
  let ?st = "insertValues g attributeMap ?io ?vh [] []"
  let ?r = "insertAssemble g randomBytes8 tableRef ?io attributeMap (fst ?st) (snd ?st)"
  have "insertLoop g attributeMap ?io ?vh ([], []) = Inr (fst ?st, snd ?st)"
    using insertLoop_empty [OF assms(3)] by simp
  from pg_insertQuery_runs [OF assms(1,2) this]
  have run: "pg_insertQuery g randomBytes8 tableRef (JObj entries) options attributeHash = Inr ?r" .
  have ret: "returningFragment ?io fs =
      (if truthy (js_get options ''returning'') then joinSQLFragments [''RETURNING'', join '', '' fs] else [])" for fs
    using insertOptions_returning [of g tableRef options]
    by (simp add: returningFragment_def del: js_get.simps)
  have q: "query ?r = joinSQLFragments
               [''INSERT INTO'', quoteTable g tableRef, ''DEFAULT VALUES'',
                if truthy (js_get options ''returning'')
                then joinSQLFragments [''RETURNING'',
                       join '', '' (getReturnFields g ?io attributeMap)]
                else []]"
    using assms(3) by (simp add: insertAssemble_def Let_def ret)
  have plain: "query ?r = ''INSERT INTO '' @ quoteTable g tableRef @ '' DEFAULT VALUES''"
    if "quoteTable g tableRef \<noteq> []" and "\<not> truthy (js_get options ''returning'')"
    using that by (simp add: q joinSQLFragments_def)
  have returning: "query ?r = ''INSERT INTO '' @ quoteTable g tableRef @ '' DEFAULT VALUES ''
                 @ joinSQLFragments [''RETURNING'', join '', '' (getReturnFields g ?io attributeMap)]"
    if "quoteTable g tableRef \<noteq> []" and "truthy (js_get options ''returning'')"
    using that joinSQLFragments_RETURNING [of "join '', '' (getReturnFields g ?io attributeMap)"]
    by (simp add: q) (simp add: joinSQLFragments_def)
  from run q plain returning show ?thesis by blast
qed

theorem insert_default_values_witness:
  "pg_insertQuery sampleGenerator [] (JStr ''t'') (JObj [(''nick'', JUndefined)])
     (JObj [(''returning'', JBool True)]) JUndefined
     = Inr \<lparr>query = ''INSERT INTO \"t\" DEFAULT VALUES RETURNING *'', bind = Some []\<rparr>"
proof -
  have 1: "insertCheckOptions sampleGenerator (JObj [(''returning'', JBool True)]) = None"
    by (simp add: insertCheckOptions_def sampleGenerator_def rejectInvalidOptions_spec_def
        INSERT_QUERY_SUPPORTED_OPTIONS_def)
  have 2: "insertAttributeMap (insertModel (JStr ''t'') (JObj [(''returning'', JBool True)])) JUndefined = Inr []"
    by (simp add: insertAttributeMap_def insertModel_def)
  have 3: "fst (insertValues sampleGenerator [] (insertOptionsOf sampleGenerator (JStr ''t'') (JObj [(''returning'', JBool True)]))
                  (removeNullishValuesFromHash sampleGenerator [(''nick'', JUndefined)]
                     (case omitNull sampleGenerator of Some flag \<Rightarrow> flag | None \<Rightarrow> False)) [] []) = []"
    by (simp add: insertValues_def insertEntry_def attributeOf_def Let_def sampleGenerator_def
        sampleRemoveNullish_def)
  from insert_default_values [OF 1 2 3, of "[]"] obtain r where
    r: "pg_insertQuery sampleGenerator [] (JStr ''t'') (JObj [(''nick'', JUndefined)])
          (JObj [(''returning'', JBool True)]) JUndefined = Inr r"
    and q: "query r = ''INSERT INTO '' @ quoteTable sampleGenerator (JStr ''t'') @ '' DEFAULT VALUES ''
                 @ joinSQLFragments [''RETURNING'',
                       join '', '' (getReturnFields sampleGenerator
                          (insertOptionsOf sampleGenerator (JStr ''t'') (JObj [(''returning'', JBool True)])) [])]"
    by (auto simp: sampleGenerator_def sampleQuoteTable_def sampleQuoteIdentifier_def)
  have b: "bind r = Some []"
    using r
    by (simp add: pg_insertQuery_def insertCheckOptions_def insertModel_def insertOptionsOf_def
      insertAttributeMap_def setAttribute_def entryRaises_def insertEntry_def attributeOf_def
      insertAssemble_def returningFragment_def bindResult_def joinSQLFragments_def Let_def
      sampleGenerator_def sampleRemoveNullish_def sampleQuoteTable_def sampleQuoteIdentifier_def
      rejectInvalidOptions_spec_def INSERT_QUERY_SUPPORTED_OPTIONS_def) auto
  have "query r = ''INSERT INTO \"t\" DEFAULT VALUES RETURNING *''"
    using q by (simp add: sampleGenerator_def sampleQuoteTable_def sampleQuoteIdentifier_def joinSQLFragments_def)
  with r b show ?thesis by simp
qed

section \<open>The exception mode on a sample\<close>

lemma insert_exception_sample_0:
  "pg_insertQuery sampleGenerator [0, 0, 0, 0, 0, 0, 0, 0] (JStr ''t'')
       (JObj [(''a'', JStr ''x'')]) (JObj [(''exception'', JBool True)]) JUndefined
     = Inr \<lparr>query = ''CREATE OR REPLACE FUNCTION pg_temp.testfunc(OUT response \"t\", OUT sequelize_caught_exception text) RETURNS RECORD AS $func_0000000000000000$ BEGIN INSERT INTO \"t\" (\"a\") VALUES ('x') RETURNING * INTO response; EXCEPTION WHEN unique_violation THEN GET STACKED DIAGNOSTICS sequelize_caught_exception = PG_EXCEPTION_DETAIL; END; $func_0000000000000000$ LANGUAGE plpgsql; SELECT (testfunc.response).*, testfunc.sequelize_caught_exception FROM pg_temp.testfunc(); DROP FUNCTION IF EXISTS pg_temp.testfunc()'',
            bind = None\<rparr>"
  by (simp add: pg_insertQuery_def insertCheckOptions_def insertModel_def insertOptionsOf_def
      insertAttributeMap_def setAttribute_def entryRaises_def insertEntry_def attributeOf_def
      insertAssemble_def returningFragment_def bindResult_def joinSQLFragments_def Let_def
      sampleGenerator_def sampleRemoveNullish_def sampleQuoteTable_def sampleQuoteIdentifier_def
      rejectInvalidOptions_spec_def INSERT_QUERY_SUPPORTED_OPTIONS_def sampleEscape_def
      toString_hex_def hex_byte_def hex_digit_def)

lemma insert_exception_sample_1:
  "pg_insertQuery sampleGenerator [0, 0, 0, 0, 0, 0, 0, 1] (JStr ''t'')
       (JObj [(''a'', JStr ''x'')]) (JObj [(''exception'', JBool True)]) JUndefined
     = Inr \<lparr>query = ''CREATE OR REPLACE FUNCTION pg_temp.testfunc(OUT response \"t\", OUT sequelize_caught_exception text) RETURNS RECORD AS $func_0000000000000001$ BEGIN INSERT INTO \"t\" (\"a\") VALUES ('x') RETURNING * INTO response; EXCEPTION WHEN unique_violation THEN GET STACKED DIAGNOSTICS sequelize_caught_exception = PG_EXCEPTION_DETAIL; END; $func_0000000000000001$ LANGUAGE plpgsql; SELECT (testfunc.response).*, testfunc.sequelize_caught_exception FROM pg_temp.testfunc(); DROP FUNCTION IF EXISTS pg_temp.testfunc()'',
            bind = None\<rparr>"
  by (simp add: pg_insertQuery_def insertCheckOptions_def insertModel_def insertOptionsOf_def
      insertAttributeMap_def setAttribute_def entryRaises_def insertEntry_def attributeOf_def
      insertAssemble_def returningFragment_def bindResult_def joinSQLFragments_def Let_def
      sampleGenerator_def sampleRemoveNullish_def sampleQuoteTable_def sampleQuoteIdentifier_def
      rejectInvalidOptions_spec_def INSERT_QUERY_SUPPORTED_OPTIONS_def sampleEscape_def
      toString_hex_def hex_byte_def hex_digit_def)

section \<open>Determinism and the random bytes\<close>

text \<open>
  Claim C8, as the code has it. The bytes a call draws are an input of the generation.
  A call of \<^verbatim>\<open>insertQuery\<close> that fails fails in the same way whatever is drawn, and outside
  the exception mode its result does not depend on the bytes. On a run that reaches the
  assembly: with an empty value map the result does not depend on the bytes either; with a
  value map that is not empty and \<^verbatim>\<open>options.exception\<close> set, the statement is the one
  below, in which the routine delimiter \<^verbatim>\<open>$func_<hex of the bytes drawn>$\<close> stands twice,
  and two calls on the same input return the same result exactly when they draw the same
  bytes. Db2's \<^verbatim>\<open>generateTransactionId\<close> returns the same identifier in two calls exactly
  when the two calls draw the same bytes.
\<close>

theorem generation_random_bytes:
  "(pg_insertQuery g drawn tableRef payload options attributeHash = Inl e \<longrightarrow>
      pg_insertQuery g other tableRef payload options attributeHash = Inl e)
   \<and> (\<not> truthy (js_get options ''exception'') \<longrightarrow>
      pg_insertQuery g drawn tableRef payload options attributeHash
        = pg_insertQuery g other tableRef payload options attributeHash)
   \<and> (insertCheckOptions g options = None
        \<and> insertAttributeMap (insertModel tableRef options) attributeHash = Inr attributeMap
        \<and> insertLoop g attributeMap (insertOptionsOf g tableRef options)
             (removeNullishValuesFromHash g entries
                (case omitNull g of Some flag \<Rightarrow> flag | None \<Rightarrow> False)) ([], [])
           = Inr (valueMap, b) \<longrightarrow>
      (valueMap = [] \<longrightarrow>
         pg_insertQuery g drawn tableRef (JObj entries) options attributeHash
           = pg_insertQuery g other tableRef (JObj entries) options attributeHash)
      \<and> (valueMap \<noteq> [] \<and> truthy (js_get options ''exception'') \<longrightarrow>
         pg_insertQuery g drawn tableRef (JObj entries) options attributeHash
           = Inr \<lparr>query = joinSQLFragments
                    [''CREATE OR REPLACE FUNCTION pg_temp.testfunc(OUT response ''
                       @ quoteTable g tableRef
                       @ '', OUT sequelize_caught_exception text) RETURNS RECORD AS'',
                     ''$func_'' @ toString_hex drawn @ ''$'',
                     ''BEGIN INSERT INTO'',
                     quoteTable g tableRef,
                     ''('' @ join '','' (map (quoteIdentifier g) (map fst valueMap)) @ '')'',
                     ''VALUES'',
                     ''('' @ join '','' (map snd valueMap) @ '')'',
                     if truthy (js_get options ''updateOnDuplicate'')
                     then generateUpdateOnDuplicateKeysFragment g
                            (insertOptionsOf g tableRef options)
                     else [],
                     if truthy (js_get options ''ignoreDuplicates'')
                     then ''ON CONFLICT DO NOTHING'' else [],
                     ''RETURNING * INTO response;'',
                     ''EXCEPTION WHEN unique_violation THEN GET STACKED DIAGNOSTICS sequelize_caught_exception = PG_EXCEPTION_DETAIL;'',
                     ''END;'',
                     ''$func_'' @ toString_hex drawn @ ''$'',
                     ''LANGUAGE plpgsql;'',
                     ''SELECT (testfunc.response).''
                       @ join '', (testfunc.response).''
                           (getReturnFields g (insertOptionsOf g tableRef options) attributeMap)
                       @ '', testfunc.sequelize_caught_exception FROM pg_temp.testfunc();'',
                     ''DROP FUNCTION IF EXISTS pg_temp.testfunc()''],
                  bind = None\<rparr>
         \<and> (pg_insertQuery g drawn tableRef (JObj entries) options attributeHash
              = pg_insertQuery g other tableRef (JObj entries) options attributeHash
            \<longleftrightarrow> drawn = other)))
   \<and> (db2_generateTransactionId drawn = db2_generateTransactionId other \<longleftrightarrow> drawn = other)"
proof -
  let ?io = "insertOptionsOf g tableRef options"
  have 1: "pg_insertQuery g other tableRef payload options attributeHash = Inl e"
    if "pg_insertQuery g drawn tableRef payload options attributeHash = Inl e"
    using that by (rule insert_failure_independent_of_random)
  have 2: "pg_insertQuery g drawn tableRef payload options attributeHash
        = pg_insertQuery g other tableRef payload options attributeHash"
    if "\<not> truthy (js_get options ''exception'')"
    using that by (rule insert_independent_of_random)
  have 4: "db2_generateTransactionId drawn = db2_generateTransactionId other \<longleftrightarrow> drawn = other"
    using toString_hex_inj [of drawn other] by (auto simp: db2_generateTransactionId_def)
  have upd: "js_get (JObj ?io) ''updateOnDuplicate'' = js_get options ''updateOnDuplicate''"
    and ign: "js_get (JObj ?io) ''ignoreDuplicates'' = js_get options ''ignoreDuplicates''"
    by (simp_all add: insertOptionsOf_def Let_def js_get_update js_get_spread del: js_get.simps)
  have 3: "(valueMap = [] \<longrightarrow>
         pg_insertQuery g drawn tableRef (JObj entries) options attributeHash
           = pg_insertQuery g other tableRef (JObj entries) options attributeHash)
      \<and> (valueMap \<noteq> [] \<and> truthy (js_get options ''exception'') \<longrightarrow>
         pg_insertQuery g drawn tableRef (JObj entries) options attributeHash
           = Inr \<lparr>query = joinSQLFragments
                    [''CREATE OR REPLACE FUNCTION pg_temp.testfunc(OUT response ''
                       @ quoteTable g tableRef
                       @ '', OUT sequelize_caught_exception text) RETURNS RECORD AS'',
                     ''$func_'' @ toString_hex drawn @ ''$'',
                     ''BEGIN INSERT INTO'',
                     quoteTable g tableRef,
                     ''('' @ join '','' (map (quoteIdentifier g) (map fst valueMap)) @ '')'',
                     ''VALUES'',
                     ''('' @ join '','' (map snd valueMap) @ '')'',
                     if truthy (js_get options ''updateOnDuplicate'')
                     then generateUpdateOnDuplicateKeysFragment g ?io
                     else [],
                     if truthy (js_get options ''ignoreDuplicates'')
                     then ''ON CONFLICT DO NOTHING'' else [],
                     ''RETURNING * INTO response;'',
                     ''EXCEPTION WHEN unique_violation THEN GET STACKED DIAGNOSTICS sequelize_caught_exception = PG_EXCEPTION_DETAIL;'',
                     ''END;'',
                     ''$func_'' @ toString_hex drawn @ ''$'',
                     ''LANGUAGE plpgsql;'',
                     ''SELECT (testfunc.response).''
                       @ join '', (testfunc.response).'' (getReturnFields g ?io attributeMap)
                       @ '', testfunc.sequelize_caught_exception FROM pg_temp.testfunc();'',
                     ''DROP FUNCTION IF EXISTS pg_temp.testfunc()''],
                  bind = None\<rparr>
         \<and> (pg_insertQuery g drawn tableRef (JObj entries) options attributeHash
              = pg_insertQuery g other tableRef (JObj entries) options attributeHash
            \<longleftrightarrow> drawn = other))"
    if c: "insertCheckOptions g options = None"
      and m: "insertAttributeMap (insertModel tableRef options) attributeHash = Inr attributeMap"
      and l: "insertLoop g attributeMap ?io
             (removeNullishValuesFromHash g entries
                (case omitNull g of Some flag \<Rightarrow> flag | None \<Rightarrow> False)) ([], [])
           = Inr (valueMap, b)"
  proof -
    have run: "pg_insertQuery g bytes tableRef (JObj entries) options attributeHash
        = Inr (insertAssemble g bytes tableRef ?io attributeMap valueMap b)" for bytes
      by (rule pg_insertQuery_runs [OF c m l])
    have empty: "pg_insertQuery g drawn tableRef (JObj entries) options attributeHash
           = pg_insertQuery g other tableRef (JObj entries) options attributeHash"
      if "valueMap = []"
      using that insertAssemble_random [of ?io valueMap g drawn tableRef attributeMap b other]
      by (simp add: run del: js_get.simps)
    have exc: "insertAssemble g bytes tableRef ?io attributeMap valueMap b
           = \<lparr>query = joinSQLFragments
                    [''CREATE OR REPLACE FUNCTION pg_temp.testfunc(OUT response ''
                       @ quoteTable g tableRef
                       @ '', OUT sequelize_caught_exception text) RETURNS RECORD AS'',
                     ''$func_'' @ toString_hex bytes @ ''$'',
                     ''BEGIN INSERT INTO'',
                     quoteTable g tableRef,
                     ''('' @ join '','' (map (quoteIdentifier g) (map fst valueMap)) @ '')'',
                     ''VALUES'',
                     ''('' @ join '','' (map snd valueMap) @ '')'',
                     if truthy (js_get options ''updateOnDuplicate'')
                     then generateUpdateOnDuplicateKeysFragment g ?io
                     else [],
                     if truthy (js_get options ''ignoreDuplicates'')
                     then ''ON CONFLICT DO NOTHING'' else [],
                     ''RETURNING * INTO response;'',
                     ''EXCEPTION WHEN unique_violation THEN GET STACKED DIAGNOSTICS sequelize_caught_exception = PG_EXCEPTION_DETAIL;'',
                     ''END;'',
                     ''$func_'' @ toString_hex bytes @ ''$'',
                     ''LANGUAGE plpgsql;'',
                     ''SELECT (testfunc.response).''
                       @ join '', (testfunc.response).'' (getReturnFields g ?io attributeMap)
                       @ '', testfunc.sequelize_caught_exception FROM pg_temp.testfunc();'',
                     ''DROP FUNCTION IF EXISTS pg_temp.testfunc()''],
                  bind = None\<rparr>"
      if ne: "valueMap \<noteq> []" and t: "truthy (js_get options ''exception'')" for bytes
    proof -
      from t have "truthy (js_get (JObj ?io) ''exception'')"
        by (simp add: insertOptions_exception del: js_get.simps)
      from insertAssemble_exception [OF ne this, of g bytes tableRef attributeMap b]
      show ?thesis
        by (simp only: upd ign)
    qed
    have iff: "pg_insertQuery g drawn tableRef (JObj entries) options attributeHash
              = pg_insertQuery g other tableRef (JObj entries) options attributeHash
            \<longleftrightarrow> drawn = other"
      if ne: "valueMap \<noteq> []" and t: "truthy (js_get options ''exception'')"
    proof
      assume "pg_insertQuery g drawn tableRef (JObj entries) options attributeHash
              = pg_insertQuery g other tableRef (JObj entries) options attributeHash"
      then have "insertAssemble g drawn tableRef ?io attributeMap valueMap b
          = insertAssemble g other tableRef ?io attributeMap valueMap b"
        by (simp add: run)
      note this [unfolded exc [OF ne t]]
      then show "drawn = other"
        by (rule exception_result_inj) simp
    next
      assume "drawn = other"
      then show "pg_insertQuery g drawn tableRef (JObj entries) options attributeHash
              = pg_insertQuery g other tableRef (JObj entries) options attributeHash"
        by simp
    qed
    from empty exc iff show ?thesis
      by (simp only: run) blast
  qed
  from 1 2 3 4 show ?thesis by blast
qed

theorem generation_random_bytes_witness:
  "pg_insertQuery sampleGenerator [0x00] (JStr ''t'') (JObj [(''a'', JStr ''x'')])
       JUndefined JUndefined
     = pg_insertQuery sampleGenerator [0xff] (JStr ''t'') (JObj [(''a'', JStr ''x'')])
         JUndefined JUndefined
   \<and> pg_insertQuery sampleGenerator [1, 2, 3, 4, 5, 6, 7, 8] (JStr ''t'')
       (JObj [(''a'', JUndefined)]) (JObj [(''exception'', JBool True)]) JUndefined
     = pg_insertQuery sampleGenerator [8, 7, 6, 5, 4, 3, 2, 1] (JStr ''t'')
         (JObj [(''a'', JUndefined)]) (JObj [(''exception'', JBool True)]) JUndefined
   \<and> pg_insertQuery sampleGenerator [0xde, 0xad, 0xbe, 0xef, 0, 0, 0, 1] (JStr ''t'')
       (JObj [(''a'', JStr ''x'')]) (JObj [(''exception'', JBool True)]) JUndefined
     = Inr \<lparr>query = ''CREATE OR REPLACE FUNCTION pg_temp.testfunc(OUT response \"t\", OUT sequelize_caught_exception text) RETURNS RECORD AS $func_deadbeef00000001$ BEGIN INSERT INTO \"t\" (\"a\") VALUES ('x') RETURNING * INTO response; EXCEPTION WHEN unique_violation THEN GET STACKED DIAGNOSTICS sequelize_caught_exception = PG_EXCEPTION_DETAIL; END; $func_deadbeef00000001$ LANGUAGE plpgsql; SELECT (testfunc.response).*, testfunc.sequelize_caught_exception FROM pg_temp.testfunc(); DROP FUNCTION IF EXISTS pg_temp.testfunc()'',
            bind = None\<rparr>
   \<and> pg_insertQuery sampleGenerator [0xde, 0xad, 0xbe, 0xef, 0, 0, 0, 1] (JStr ''t'')
       (JObj [(''a'', JStr ''x'')]) (JObj [(''exception'', JBool True)]) JUndefined
     \<noteq> pg_insertQuery sampleGenerator [0xde, 0xad, 0xbe, 0xef, 0, 0, 0, 2] (JStr ''t'')
         (JObj [(''a'', JStr ''x'')]) (JObj [(''exception'', JBool True)]) JUndefined
   \<and> db2_generateTransactionId [0x0a, 0xff] \<noteq> db2_generateTransactionId [0x0a, 0xfe]"
proof -
  let ?opts = "JObj [(''exception'', JBool True)]"
  let ?io = "insertOptionsOf sampleGenerator (JStr ''t'') ?opts"
  have c: "insertCheckOptions sampleGenerator ?opts = None"
    by (simp add: insertCheckOptions_def sampleGenerator_def rejectInvalidOptions_spec_def
        INSERT_QUERY_SUPPORTED_OPTIONS_def)
  have m: "insertAttributeMap (insertModel (JStr ''t'') ?opts) JUndefined = Inr []"
    by (simp add: insertAttributeMap_def insertModel_def)
  have l0: "insertLoop sampleGenerator [] ?io
             (removeNullishValuesFromHash sampleGenerator [(''a'', JUndefined)]
                (case omitNull sampleGenerator of Some flag \<Rightarrow> flag | None \<Rightarrow> False)) ([], [])
           = Inr ([], [])"
    by (simp add: insertOptionsOf_def insertModel_def entryRaises_def insertEntry_def attributeOf_def Let_def sampleGenerator_def
        sampleRemoveNullish_def)
  have l1: "insertLoop sampleGenerator [] ?io
             (removeNullishValuesFromHash sampleGenerator [(''a'', JStr ''x'')]
                (case omitNull sampleGenerator of Some flag \<Rightarrow> flag | None \<Rightarrow> False)) ([], [])
           = Inr ([(''a'', [CHR 0x27, CHR ''x'', CHR 0x27])], [])"
    by (simp add: insertOptionsOf_def insertModel_def entryRaises_def insertEntry_def attributeOf_def Let_def sampleGenerator_def
        sampleRemoveNullish_def sampleEscape_def)
  have 1: "pg_insertQuery sampleGenerator [0x00] (JStr ''t'') (JObj [(''a'', JStr ''x'')])
       JUndefined JUndefined
     = pg_insertQuery sampleGenerator [0xff] (JStr ''t'') (JObj [(''a'', JStr ''x'')])
         JUndefined JUndefined"
    using generation_random_bytes [where options = JUndefined and g = sampleGenerator
        and drawn = "[0x00]" and other = "[0xff]" and tableRef = "JStr ''t''"
        and payload = "JObj [(''a'', JStr ''x'')]" and attributeHash = JUndefined,
        THEN conjunct2, THEN conjunct1]
    by simp
  have 2: "pg_insertQuery sampleGenerator [1, 2, 3, 4, 5, 6, 7, 8] (JStr ''t'')
       (JObj [(''a'', JUndefined)]) ?opts JUndefined
     = pg_insertQuery sampleGenerator [8, 7, 6, 5, 4, 3, 2, 1] (JStr ''t'')
         (JObj [(''a'', JUndefined)]) ?opts JUndefined"
    using generation_random_bytes [where options = ?opts and g = sampleGenerator
        and drawn = "[1, 2, 3, 4, 5, 6, 7, 8]" and other = "[8, 7, 6, 5, 4, 3, 2, 1]"
        and tableRef = "JStr ''t''" and attributeHash = JUndefined and attributeMap = "[]"
        and entries = "[(''a'', JUndefined)]" and valueMap = "[]" and b = "[]",
        THEN conjunct2, THEN conjunct2, THEN conjunct1, rule_format, OF conjI [OF c conjI [OF m l0]],
        THEN conjunct1]
    by simp
  have h: "[(''a'', [CHR 0x27, CHR ''x'', CHR 0x27])] \<noteq> [] \<and> truthy (js_get ?opts ''exception'')"
    by simp
  note t = generation_random_bytes [where options = ?opts and g = sampleGenerator
        and drawn = "[0xde, 0xad, 0xbe, 0xef, 0, 0, 0, 1]"
        and other = "[0xde, 0xad, 0xbe, 0xef, 0, 0, 0, 2]"
        and tableRef = "JStr ''t''" and attributeHash = JUndefined and attributeMap = "[]"
        and entries = "[(''a'', JStr ''x'')]" and valueMap = "[(''a'', [CHR 0x27, CHR ''x'', CHR 0x27])]" and b = "[]",
        THEN conjunct2, THEN conjunct2, THEN conjunct1, rule_format, OF conjI [OF c conjI [OF m l1]],
        THEN conjunct2, rule_format, OF h]
  have 3: "pg_insertQuery sampleGenerator [0xde, 0xad, 0xbe, 0xef, 0, 0, 0, 1] (JStr ''t'')
       (JObj [(''a'', JStr ''x'')]) ?opts JUndefined
     = Inr \<lparr>query = ''CREATE OR REPLACE FUNCTION pg_temp.testfunc(OUT response \"t\", OUT sequelize_caught_exception text) RETURNS RECORD AS $func_deadbeef00000001$ BEGIN INSERT INTO \"t\" (\"a\") VALUES ('x') RETURNING * INTO response; EXCEPTION WHEN unique_violation THEN GET STACKED DIAGNOSTICS sequelize_caught_exception = PG_EXCEPTION_DETAIL; END; $func_deadbeef00000001$ LANGUAGE plpgsql; SELECT (testfunc.response).*, testfunc.sequelize_caught_exception FROM pg_temp.testfunc(); DROP FUNCTION IF EXISTS pg_temp.testfunc()'',
            bind = None\<rparr>"
    using t [THEN conjunct1]
    by (simp add: joinSQLFragments_def sampleGenerator_def sampleQuoteTable_def
        sampleQuoteIdentifier_def toString_hex_def hex_byte_def hex_digit_def)
  have 4: "pg_insertQuery sampleGenerator [0xde, 0xad, 0xbe, 0xef, 0, 0, 0, 1] (JStr ''t'')
       (JObj [(''a'', JStr ''x'')]) ?opts JUndefined
     \<noteq> pg_insertQuery sampleGenerator [0xde, 0xad, 0xbe, 0xef, 0, 0, 0, 2] (JStr ''t'')
         (JObj [(''a'', JStr ''x'')]) ?opts JUndefined"
    using t [THEN conjunct2] by simp
  have 5: "db2_generateTransactionId [0x0a, 0xff] \<noteq> db2_generateTransactionId [0x0a, 0xfe]"
    using generation_random_bytes [where drawn = "[0x0a, 0xff]" and other = "[0x0a, 0xfe]",
        THEN conjunct2, THEN conjunct2, THEN conjunct2]
    by simp
  from 1 2 3 4 5 show ?thesis by (intro conjI)
qed

text \<open>
  The claim as the spec states it (two calls on the same input give the same output, the
  exception mode and \<^verbatim>\<open>generateTransactionId\<close> included) fails as soon as two calls draw
  different bytes.
\<close>

theorem generation_random_counterexample:
  "pg_insertQuery sampleGenerator [0, 0, 0, 0, 0, 0, 0, 0] (JStr ''t'')
       (JObj [(''a'', JStr ''x'')]) (JObj [(''exception'', JBool True)]) JUndefined
     \<noteq> pg_insertQuery sampleGenerator [0, 0, 0, 0, 0, 0, 0, 1] (JStr ''t'')
       (JObj [(''a'', JStr ''x'')]) (JObj [(''exception'', JBool True)]) JUndefined
   \<and> db2_generateTransactionId [0, 0, 0, 0, 0, 0, 0, 0, 0, 0]
     \<noteq> db2_generateTransactionId [0, 0, 0, 0, 0, 0, 0, 0, 0, 1]"
  by (simp add: insert_exception_sample_0 insert_exception_sample_1
      db2_generateTransactionId_def toString_hex_def hex_byte_def hex_digit_def)

section \<open>Lemmas on substrings\<close>

lemma js_includes_here: "take (length pat) s = pat \<Longrightarrow> js_includes s pat"
  by (cases s) auto

lemma js_includes_append: "js_includes (pre @ pat @ post) pat"
  by (induction pre) (auto intro: js_includes_here)

lemma js_includes_joined:
  assumes "x \<noteq> []" and "pat \<noteq> []"
  shows "js_includes (joinSQLFragments [x, y @ pat]) pat"
proof -
  from assms have "joinSQLFragments [x, y @ pat] = (x @ '' '' @ y) @ pat @ []"
    by (simp add: joinSQLFragments_def)
  then show ?thesis
    by (simp only: js_includes_append)
qed

section \<open>The list queries and their exclusion lists\<close>

text \<open>
  Claim C9, as the code has it. \<^verbatim>\<open>listDatabasesQuery\<close> and \<^verbatim>\<open>listSchemasQuery\<close> always
  carry the predicate \<^verbatim>\<open>NOT IN (...)\<close> over the dialect's technical names (with
  \<^verbatim>\<open>public\<close> first for the Postgres schemas) followed by the caller's skip list, when
  \<^verbatim>\<open>options.skip\<close> is an array. \<^verbatim>\<open>listTablesQuery\<close> carries the predicate over the
  technical schema names alone, and only when \<^verbatim>\<open>options.schema\<close> is not set; with a schema
  filter the query selects the tables of that one schema and has no exclusion list.
\<close>

theorem list_queries_exclusions:
  "js_includes (pg_listDatabasesQuery g options)
     (''NOT IN ('' @ join '', '' (map (escapeValue g)
         (map JStr (getTechnicalDatabaseNames g) @ skipOf options)) @ '')'')
   \<and> js_includes (pg_listSchemasQuery g options)
     (''NOT IN ('' @ join '', '' (map (escapeValue g)
         ((JStr ''public'' # map JStr (getTechnicalSchemaNames g)) @ skipOf options)) @ '')'')
   \<and> js_includes (db2_listSchemasQuery g options)
     (''NOT IN ('' @ join '', '' (map (escapeValue g)
         (map JStr (getTechnicalSchemaNames g) @ skipOf options)) @ '')'')
   \<and> (\<not> truthy (js_get options ''schema'') \<longrightarrow>
        js_includes (pg_listTablesQuery g options)
          (''NOT IN ('' @ join '', '' (map (escapeValue g)
              (map JStr (getTechnicalSchemaNames g))) @ '')'')
        \<and> js_includes (db2_listTablesQuery g options)
          (''NOT IN ('' @ join '', '' (map (escapeValue g)
              (map JStr (getTechnicalSchemaNames g))) @ '')''))
   \<and> (truthy (js_get options ''schema'') \<longrightarrow>
        pg_listTablesQuery g options =
          ''SELECT table_name AS \"tableName\", table_schema AS \"schema\" FROM information_schema.tables WHERE table_type = 'BASE TABLE' AND table_name != 'spatial_ref_sys' AND table_schema = ''
            @ escapeValue g (js_get options ''schema'') @ '' ORDER BY table_schema, table_name''
        \<and> db2_listTablesQuery g options =
          ''SELECT TABNAME AS \"tableName\", TRIM(TABSCHEMA) AS \"schema\" FROM SYSCAT.TABLES WHERE TYPE = 'T' AND TABSCHEMA = ''
            @ escapeValue g (js_get options ''schema'') @ '' ORDER BY TABSCHEMA, TABNAME'')"
proof -
  have pat: "js_includes (joinSQLFragments [x, y @ ''NOT IN ('' @ z @ '')'']) (''NOT IN ('' @ z @ '')'')"
    if "x \<noteq> []" for x y z
    using js_includes_joined [OF that, of "''NOT IN ('' @ z @ '')''" y] by simp
  have 1: "js_includes (pg_listDatabasesQuery g options)
     (''NOT IN ('' @ join '', '' (map (escapeValue g)
         (map JStr (getTechnicalDatabaseNames g) @ skipOf options)) @ '')'')"
    unfolding pg_listDatabasesQuery_def Let_def
    using pat [of "''SELECT datname AS \"name\" FROM pg_database''" "''WHERE datistemplate = false AND datname ''"]
    by simp
  have 2: "js_includes (pg_listSchemasQuery g options)
     (''NOT IN ('' @ join '', '' (map (escapeValue g)
         ((JStr ''public'' # map JStr (getTechnicalSchemaNames g)) @ skipOf options)) @ '')'')"
    unfolding pg_listSchemasQuery_def Let_def
    using pat [of "''SELECT schema_name AS \"schema\" FROM information_schema.schemata''" "''WHERE schema_name !~ E'^pg_' AND schema_name ''"]
    by simp
  have 3: "js_includes (db2_listSchemasQuery g options)
     (''NOT IN ('' @ join '', '' (map (escapeValue g)
         (map JStr (getTechnicalSchemaNames g) @ skipOf options)) @ '')'')"
    unfolding db2_listSchemasQuery_def Let_def
    using pat [of "''SELECT SCHEMANAME AS \"schema\" FROM SYSCAT.SCHEMATA''" "''WHERE SCHEMANAME NOT LIKE 'SYS%' AND SCHEMANAME ''"]
    by simp
  have 4: "js_includes (pg_listTablesQuery g options)
          (''NOT IN ('' @ join '', '' (map (escapeValue g)
              (map JStr (getTechnicalSchemaNames g))) @ '')'')"
    if "\<not> truthy (js_get options ''schema'')"
  proof -
    have "pg_listTablesQuery g options =
      ''SELECT table_name AS \"tableName\", table_schema AS \"schema\" FROM information_schema.tables WHERE table_type = 'BASE TABLE' AND table_name != 'spatial_ref_sys' AND table_schema !~ E'^pg_' AND table_schema ''
       @ (''NOT IN ('' @ join '', '' (map (escapeValue g) (map JStr (getTechnicalSchemaNames g))) @ '')'')
       @ '' ORDER BY table_schema, table_name''"
      using that by (simp add: pg_listTablesQuery_def joinSQLFragments_def)
    then show ?thesis by (simp only: js_includes_append)
  qed
  have 5: "js_includes (db2_listTablesQuery g options)
          (''NOT IN ('' @ join '', '' (map (escapeValue g)
              (map JStr (getTechnicalSchemaNames g))) @ '')'')"
    if "\<not> truthy (js_get options ''schema'')"
  proof -
    have "db2_listTablesQuery g options =
      ''SELECT TABNAME AS \"tableName\", TRIM(TABSCHEMA) AS \"schema\" FROM SYSCAT.TABLES WHERE TYPE = 'T' AND TABSCHEMA NOT LIKE 'SYS%' AND TABSCHEMA ''
       @ (''NOT IN ('' @ join '', '' (map (escapeValue g) (map JStr (getTechnicalSchemaNames g))) @ '')'')
       @ '' ORDER BY TABSCHEMA, TABNAME''"
      using that by (simp add: db2_listTablesQuery_def joinSQLFragments_def)
    then show ?thesis by (simp only: js_includes_append)
  qed
  have 6: "pg_listTablesQuery g options =
          ''SELECT table_name AS \"tableName\", table_schema AS \"schema\" FROM information_schema.tables WHERE table_type = 'BASE TABLE' AND table_name != 'spatial_ref_sys' AND table_schema = ''
            @ escapeValue g (js_get options ''schema'') @ '' ORDER BY table_schema, table_name''"
    if "truthy (js_get options ''schema'')"
    using that by (simp add: pg_listTablesQuery_def joinSQLFragments_def)
  have 7: "db2_listTablesQuery g options =
          ''SELECT TABNAME AS \"tableName\", TRIM(TABSCHEMA) AS \"schema\" FROM SYSCAT.TABLES WHERE TYPE = 'T' AND TABSCHEMA = ''
            @ escapeValue g (js_get options ''schema'') @ '' ORDER BY TABSCHEMA, TABNAME''"
    if "truthy (js_get options ''schema'')"
    using that by (simp add: db2_listTablesQuery_def joinSQLFragments_def)
  from 1 2 3 4 5 6 7 show ?thesis by blast
qed

theorem list_queries_exclusions_witness:
  "js_includes (pg_listDatabasesQuery sampleGenerator (JObj [(''skip'', JArr [JStr ''template9''])]))
     ''NOT IN ('postgres', 'template9')''
   \<and> js_includes (pg_listTablesQuery sampleGenerator JUndefined)
     ''NOT IN ('information_schema', 'tiger', 'tiger_data', 'topology')''
   \<and> pg_listTablesQuery sampleGenerator (JObj [(''schema'', JStr ''app'')])
     = ''SELECT table_name AS \"tableName\", table_schema AS \"schema\" FROM information_schema.tables WHERE table_type = 'BASE TABLE' AND table_name != 'spatial_ref_sys' AND table_schema = 'app' ORDER BY table_schema, table_name''"
  using list_queries_exclusions [of sampleGenerator "JObj [(''skip'', JArr [JStr ''template9''])]"]
    list_queries_exclusions [of sampleGenerator JUndefined]
    list_queries_exclusions [of sampleGenerator "JObj [(''schema'', JStr ''app'')]"]
  by (simp add: skipOf_def escapeValue_def sampleGenerator_def sampleEscape_def)

text \<open>
  The claim as the spec states it (the exclusion list is there also under a schema
  filter) fails: asked for the tables of a technical schema, \<^verbatim>\<open>listTablesQuery\<close> selects
  exactly that schema.
\<close>

theorem list_tables_schema_counterexample:
  "pg_listTablesQuery sampleGenerator (JObj [(''schema'', JStr ''information_schema'')])
     = ''SELECT table_name AS \"tableName\", table_schema AS \"schema\" FROM information_schema.tables WHERE table_type = 'BASE TABLE' AND table_name != 'spatial_ref_sys' AND table_schema = 'information_schema' ORDER BY table_schema, table_name''
   \<and> \<not> js_includes
         (pg_listTablesQuery sampleGenerator (JObj [(''schema'', JStr ''information_schema'')]))
         ''NOT IN''"
  by (simp add: pg_listTablesQuery_def joinSQLFragments_def escapeValue_def sampleGenerator_def
      sampleEscape_def)

section \<open>Lemmas on the unique keys\<close>

lemma uniqueIsPrimary_sorted:
  "uniqueIsPrimary primaryKeys columnFields \<longleftrightarrow> sort columnFields = sort primaryKeys"
proof -
  have "(sort columnFields = sort primaryKeys) =
      (length (sort columnFields) = length (sort primaryKeys)
       \<and> (\<forall>i<length (sort columnFields). sort columnFields ! i = sort primaryKeys ! i))"
    by (rule list_eq_iff_nth_eq)
  then show ?thesis
    by (simp add: uniqueIsPrimary_def Let_def list_all_iff Ball_def)
qed

lemma sort_eq_iff_mset: "sort xs = sort ys \<longleftrightarrow> mset xs = mset (ys :: string list)"
proof
  assume "sort xs = sort ys"
  then have "mset (sort xs) = mset (sort ys)" by simp
  then show "mset xs = mset ys" by simp
next
  assume "mset xs = mset ys"
  then show "sort xs = sort ys"
    by (intro properties_for_sort) simp_all
qed

lemma uniqueIsPrimary_mset:
  "uniqueIsPrimary primaryKeys columnFields \<longleftrightarrow> mset columnFields = mset primaryKeys"
  by (simp add: uniqueIsPrimary_sorted sort_eq_iff_mset)

lemma uniqueKeyClauses_all:
  "map (\<lambda>entry. fieldsOf (snd entry)) entries = map Inr fss \<Longrightarrow>
   uniqueKeyClauses g tableRef primaryKeys entries acc =
     Inr (acc @ concat (map (\<lambda>(indexName, columnFields).
                               uniqueKeyClause g tableRef primaryKeys indexName columnFields)
                          (zip (map fst entries) fss)))"
proof (induction entries arbitrary: fss acc)
  case Nil
  then show ?case by simp
next
  case (Cons entry rest)
  obtain indexName columns where entry: "entry = (indexName, columns)" by (cases entry)
  from Cons.prems entry obtain fs fss' where fs: "fieldsOf columns = Inr fs"
    and rest: "map (\<lambda>entry. fieldsOf (snd entry)) rest = map Inr fss'"
    and fss: "fss = fs # fss'"
    by (cases fss) auto
  show ?case
    using Cons.IH [OF rest] by (simp add: entry fs fss)
qed

section \<open>IBM i: a unique key that duplicates the primary key\<close>

text \<open>
  Claim C6, as the code has it. The test \<open>uniqueIsPrimary\<close> holds exactly when the unique
  key's fields and the primary keys are the same columns up to order, compared as exact
  strings (case-sensitive). Such a unique key adds no clause; any other unique key adds
  \<^verbatim>\<open>, CONSTRAINT <name> UNIQUE (<fields>)\<close>, named by the caller's key when \<^verbatim>\<open>uniqueKeys\<close>
  is an object and \<^verbatim>\<open>uniq_<table>_<fields joined by _>\<close> otherwise. \<^verbatim>\<open>createTableQuery\<close>
  appends these clauses, in order, between the column definitions and the primary-key
  clause.
\<close>

theorem unique_key_duplicating_primary_key:
  "(uniqueIsPrimary primaryKeys columnFields \<longleftrightarrow> mset columnFields = mset primaryKeys)
   \<and> (mset columnFields = mset primaryKeys \<longrightarrow>
        uniqueKeyClause g tableRef primaryKeys indexName columnFields = [])
   \<and> (mset columnFields \<noteq> mset primaryKeys \<longrightarrow>
        uniqueKeyClause g tableRef primaryKeys indexName columnFields =
          '', CONSTRAINT ''
            @ quoteIdentifier g
                (case indexName of
                   JStr n \<Rightarrow> n
                 | _ \<Rightarrow> ''uniq_'' @ templateString g tableRef @ ''_'' @ join ''_'' columnFields)
            @ '' UNIQUE ('' @ join '', '' (map (quoteIdentifier g) columnFields) @ '')'')
   \<and> ((truthy options \<longrightarrow>
          rejectInvalidOptions g ''createTableQuery'' (supportable g ''createTableQuery'')
            CREATE_TABLE_QUERY_SUPPORTED_OPTIONS options = None)
        \<and> truthy (js_get options ''uniqueKeys'')
        \<and> map (\<lambda>entry. fieldsOf (snd entry)) (eachEntries (js_get options ''uniqueKeys''))
              = map Inr fss \<longrightarrow>
        ibmi_createTableQuery g tableRef attributes options =
          Inr (''BEGIN\<newline>    DECLARE CONTINUE HANDLER FOR SQLSTATE VALUE '42710'\<newline>      BEGIN END;\<newline>      CREATE TABLE ''
                 @ quoteTable g tableRef @ '' (''
                 @ join '', '' (attrStrOf g attributes)
                 @ concat (map (\<lambda>(name, columnFields).
                                  uniqueKeyClause g tableRef (primaryKeysOf attributes) name columnFields)
                             (zip (map fst (eachEntries (js_get options ''uniqueKeys''))) fss))
                 @ (if join '', '' (map (quoteIdentifier g) (primaryKeysOf attributes)) \<noteq> []
                    then '', PRIMARY KEY (''
                           @ join '', '' (map (quoteIdentifier g) (primaryKeysOf attributes)) @ '')''
                    else [])
                 @ '');\<newline>      END''))"
proof -
  have 1: "uniqueIsPrimary primaryKeys columnFields \<longleftrightarrow> mset columnFields = mset primaryKeys"
    by (rule uniqueIsPrimary_mset)
  have 2: "uniqueKeyClause g tableRef primaryKeys indexName columnFields = []"
    if "mset columnFields = mset primaryKeys"
    using that by (simp add: uniqueKeyClause_def uniqueIsPrimary_mset)
  have 3: "uniqueKeyClause g tableRef primaryKeys indexName columnFields =
          '', CONSTRAINT ''
            @ quoteIdentifier g
                (case indexName of
                   JStr n \<Rightarrow> n
                 | _ \<Rightarrow> ''uniq_'' @ templateString g tableRef @ ''_'' @ join ''_'' columnFields)
            @ '' UNIQUE ('' @ join '', '' (map (quoteIdentifier g) columnFields) @ '')''"
    if "mset columnFields \<noteq> mset primaryKeys"
    using that by (simp add: uniqueKeyClause_def uniqueIsPrimary_mset Let_def)
  have 4: "ibmi_createTableQuery g tableRef attributes options =
          Inr (''BEGIN\<newline>    DECLARE CONTINUE HANDLER FOR SQLSTATE VALUE '42710'\<newline>      BEGIN END;\<newline>      CREATE TABLE ''
                 @ quoteTable g tableRef @ '' (''
                 @ join '', '' (attrStrOf g attributes)
                 @ concat (map (\<lambda>(name, columnFields).
                                  uniqueKeyClause g tableRef (primaryKeysOf attributes) name columnFields)
                             (zip (map fst (eachEntries (js_get options ''uniqueKeys''))) fss))
                 @ (if join '', '' (map (quoteIdentifier g) (primaryKeysOf attributes)) \<noteq> []
                    then '', PRIMARY KEY (''
                           @ join '', '' (map (quoteIdentifier g) (primaryKeysOf attributes)) @ '')''
                    else [])
                 @ '');\<newline>      END'')"
    if v: "truthy options \<longrightarrow>
          rejectInvalidOptions g ''createTableQuery'' (supportable g ''createTableQuery'')
            CREATE_TABLE_QUERY_SUPPORTED_OPTIONS options = None"
      and u: "truthy (js_get options ''uniqueKeys'')"
      and f: "map (\<lambda>entry. fieldsOf (snd entry)) (eachEntries (js_get options ''uniqueKeys''))
              = map Inr fss"
    using v u uniqueKeyClauses_all [OF f, of g tableRef "primaryKeysOf attributes"
        "join '', '' (attrStrOf g attributes)"]
    by (simp add: ibmi_createTableQuery_def Let_def)
  from 1 2 3 4 show ?thesis by blast
qed

theorem unique_key_duplicating_primary_key_witness:
  "uniqueIsPrimary [''a'', ''b''] [''b'', ''a'']
   \<and> uniqueKeyClause sampleGenerator (JStr ''t'') [''a'', ''b''] (JNum 0) [''b'', ''a''] = []
   \<and> uniqueKeyClause sampleGenerator (JStr ''t'') [''a'', ''b''] (JNum 0) [''b'', ''c'']
       = '', CONSTRAINT \"uniq_t_b_c\" UNIQUE (\"b\", \"c\")''
   \<and> ibmi_createTableQuery (sampleGenerator\<lparr>dialectName := ''ibmi''\<rparr>) (JStr ''t'')
        [(''a'', ''INTEGER PRIMARY KEY''), (''b'', ''INTEGER PRIMARY KEY''), (''c'', ''VARCHAR(9)'')]
        (JObj [(''uniqueKeys'', JObj [(''first'', JObj [(''fields'', JArr [JStr ''b'', JStr ''a''])]),
                                      (''second'', JObj [(''fields'', JArr [JStr ''c''])])])])
       = Inr ''BEGIN\<newline>    DECLARE CONTINUE HANDLER FOR SQLSTATE VALUE '42710'\<newline>      BEGIN END;\<newline>      CREATE TABLE \"t\" (\"a\" INTEGER , \"b\" INTEGER , \"c\" VARCHAR(9), CONSTRAINT \"second\" UNIQUE (\"c\"), PRIMARY KEY (\"a\", \"b\"));\<newline>      END''"
proof -
  let ?g = "sampleGenerator\<lparr>dialectName := ''ibmi''\<rparr>"
  let ?atts = "[(''a'', ''INTEGER PRIMARY KEY''), (''b'', ''INTEGER PRIMARY KEY''), (''c'', ''VARCHAR(9)'')]"
  let ?opts = "JObj [(''uniqueKeys'', JObj [(''first'', JObj [(''fields'', JArr [JStr ''b'', JStr ''a''])]),
                                      (''second'', JObj [(''fields'', JArr [JStr ''c''])])])]"
  have m1: "mset [''b'', ''a''] = mset [''a'', ''b'']" by simp
  have m2: "mset [''b'', ''c''] \<noteq> mset [''a'', ''b'']" by simp
  have m3: "mset [''c''] \<noteq> mset [''a'', ''b'']" by simp
  note t = unique_key_duplicating_primary_key [where primaryKeys = "[''a'', ''b'']"
      and g = sampleGenerator and tableRef = "JStr ''t''"
      and indexName = "JNum 0" and options = JUndefined and fss = "[]" and attributes = "[]"]
  have a: "uniqueIsPrimary [''a'', ''b''] [''b'', ''a'']"
    using t [where columnFields = "[''b'', ''a'']", THEN conjunct1] m1 by (simp only:)
  have b: "uniqueKeyClause sampleGenerator (JStr ''t'') [''a'', ''b''] (JNum 0) [''b'', ''a''] = []"
    using t [where columnFields = "[''b'', ''a'']", THEN conjunct2, THEN conjunct1, rule_format, OF m1] .
  have c: "uniqueKeyClause sampleGenerator (JStr ''t'') [''a'', ''b''] (JNum 0) [''b'', ''c'']
       = '', CONSTRAINT \"uniq_t_b_c\" UNIQUE (\"b\", \"c\")''"
    using t [where columnFields = "[''b'', ''c'']", THEN conjunct2, THEN conjunct2, THEN conjunct1,
        rule_format, OF m2]
    by (simp add: sampleGenerator_def sampleQuoteIdentifier_def)
  have pk: "primaryKeysOf ?atts = [''a'', ''b'']"
    by (simp add: primaryKeysOf_def)
  have at: "attrStrOf ?g ?atts = [''\"a\" INTEGER '', ''\"b\" INTEGER '', ''\"c\" VARCHAR(9)'']"
    by (simp add: attrStrOf_def sampleGenerator_def sampleQuoteIdentifier_def)
  have c1: "uniqueKeyClause ?g (JStr ''t'') [''a'', ''b''] (JStr ''first'') [''b'', ''a''] = []"
    by (simp add: uniqueKeyClause_def uniqueIsPrimary_mset)
  have c2: "uniqueKeyClause ?g (JStr ''t'') [''a'', ''b''] (JStr ''second'') [''c'']
      = '', CONSTRAINT \"second\" UNIQUE (\"c\")''"
    by (simp add: uniqueKeyClause_def uniqueIsPrimary_mset sampleGenerator_def sampleQuoteIdentifier_def)
  have h: "(truthy ?opts \<longrightarrow>
          rejectInvalidOptions ?g ''createTableQuery'' (supportable ?g ''createTableQuery'')
            CREATE_TABLE_QUERY_SUPPORTED_OPTIONS ?opts = None)
        \<and> truthy (js_get ?opts ''uniqueKeys'')
        \<and> map (\<lambda>entry. fieldsOf (snd entry)) (eachEntries (js_get ?opts ''uniqueKeys''))
              = map Inr [[''b'', ''a''], [''c'']]"
    by (simp add: sampleGenerator_def rejectInvalidOptions_spec_def
        CREATE_TABLE_QUERY_SUPPORTED_OPTIONS_def fieldsOf_def)
  have q: "ibmi_createTableQuery ?g (JStr ''t'') ?atts ?opts
       = Inr ''BEGIN\<newline>    DECLARE CONTINUE HANDLER FOR SQLSTATE VALUE '42710'\<newline>      BEGIN END;\<newline>      CREATE TABLE \"t\" (\"a\" INTEGER , \"b\" INTEGER , \"c\" VARCHAR(9), CONSTRAINT \"second\" UNIQUE (\"c\"), PRIMARY KEY (\"a\", \"b\"));\<newline>      END''"
    using unique_key_duplicating_primary_key [where g = ?g and tableRef = "JStr ''t''"
        and options = ?opts and fss = "[[''b'', ''a''], [''c'']]" and attributes = ?atts,
        THEN conjunct2, THEN conjunct2, THEN conjunct2, rule_format, OF h]
    by (simp add: pk at c1 c2) (simp add: sampleGenerator_def sampleQuoteIdentifier_def sampleQuoteTable_def)
  from a b c q show ?thesis by (intro conjI)
qed

text \<open>
  The claim as the spec states it (the comparison is case-insensitive) fails: a unique
  key on \<^verbatim>\<open>ID\<close> beside the primary key \<^verbatim>\<open>id\<close> is the same column set in the spec's reading,
  and the code emits its constraint.
\<close>

theorem unique_key_case_counterexample:
  "sameColumnSet_spec [''id''] [''ID'']
   \<and> \<not> uniqueIsPrimary [''id''] [''ID'']
   \<and> ibmi_createTableQuery (sampleGenerator\<lparr>dialectName := ''ibmi''\<rparr>) (JStr ''t'')
        [(''id'', ''INTEGER PRIMARY KEY'')]
        (JObj [(''uniqueKeys'', JArr [JObj [(''fields'', JArr [JStr ''ID''])]])])
       = Inr ''BEGIN\<newline>    DECLARE CONTINUE HANDLER FOR SQLSTATE VALUE '42710'\<newline>      BEGIN END;\<newline>      CREATE TABLE \"t\" (\"id\" INTEGER , CONSTRAINT \"uniq_t_ID\" UNIQUE (\"ID\"), PRIMARY KEY (\"id\"));\<newline>      END''"
proof -
  have 1: "sameColumnSet_spec [''id''] [''ID'']"
    by (simp add: sameColumnSet_spec_def toLowerCase_def lower_char_def)
  have 2: "\<not> uniqueIsPrimary [''id''] [''ID'']"
    by (simp add: uniqueIsPrimary_def)
  have pk: "primaryKeysOf [(''id'', ''INTEGER PRIMARY KEY'')] = [''id'']"
    by (simp add: primaryKeysOf_def)
  have 3: "ibmi_createTableQuery (sampleGenerator\<lparr>dialectName := ''ibmi''\<rparr>) (JStr ''t'')
        [(''id'', ''INTEGER PRIMARY KEY'')]
        (JObj [(''uniqueKeys'', JArr [JObj [(''fields'', JArr [JStr ''ID''])]])])
       = Inr ''BEGIN\<newline>    DECLARE CONTINUE HANDLER FOR SQLSTATE VALUE '42710'\<newline>      BEGIN END;\<newline>      CREATE TABLE \"t\" (\"id\" INTEGER , CONSTRAINT \"uniq_t_ID\" UNIQUE (\"ID\"), PRIMARY KEY (\"id\"));\<newline>      END''"
    by (simp add: ibmi_createTableQuery_def Let_def pk 2 uniqueKeyClause_def fieldsOf_def attrStrOf_def
        sampleGenerator_def sampleQuoteIdentifier_def sampleQuoteTable_def
        rejectInvalidOptions_spec_def CREATE_TABLE_QUERY_SUPPORTED_OPTIONS_def)
  from 1 2 3 show ?thesis by blast
qed

section \<open>Removing an index by its fields\<close>

text \<open>
  Claim C4. With the index name derived as the spec describes, for every table and field
  list: \<^verbatim>\<open>removeIndexQuery\<close> called with the field list derives the name the add path
  derives when the caller gives no name, namely the table name and the fields joined by
  underscores, a function of the table and the field list alone; and the statement it
  returns drops the index of that name in the table's schema.
\<close>

theorem remove_index_by_fields:
  assumes "\<not> (truthy (js_get options ''cascade'') \<and> truthy (js_get options ''concurrently''))"
      and "stringOf nameOption = None"
  shows "pg_removeIndexName (withSpecIndexName g) tableRef (IndexAttributes fieldNames)
           = addIndexName_spec g tableRef nameOption fieldNames
       \<and> addIndexName_spec g tableRef nameOption fieldNames
           = tableName (extractTableDetails g tableRef) @ ''_'' @ join ''_'' fieldNames
       \<and> pg_removeIndexQuery (withSpecIndexName g) tableRef (IndexAttributes fieldNames) options
           = Inr (joinSQLFragments
               [''DROP INDEX'',
                if truthy (js_get options ''concurrently'') then ''CONCURRENTLY'' else [],
                if truthy (js_get options ''ifExists'') then ''IF EXISTS'' else [],
                quoteIdentifier g (schema (extractTableDetails g tableRef)) @ ''.''
                  @ quoteIdentifier g (addIndexName_spec g tableRef nameOption fieldNames),
                if truthy (js_get options ''cascade'') then ''CASCADE'' else []])"
proof -
  have name: "addIndexName_spec g tableRef nameOption fieldNames
      = generateIndexName_spec (extractTableDetails g tableRef) fieldNames"
    using assms(2) by (cases nameOption) (simp_all add: addIndexName_spec_def)
  have remove: "pg_removeIndexName (withSpecIndexName g) tableRef (IndexAttributes fieldNames)
      = generateIndexName_spec (extractTableDetails g tableRef) fieldNames"
    by (simp add: pg_removeIndexName_def withSpecIndexName_def)
  have q: "pg_removeIndexQuery (withSpecIndexName g) tableRef (IndexAttributes fieldNames) options
           = Inr (joinSQLFragments
               [''DROP INDEX'',
                if truthy (js_get options ''concurrently'') then ''CONCURRENTLY'' else [],
                if truthy (js_get options ''ifExists'') then ''IF EXISTS'' else [],
                quoteIdentifier g (schema (extractTableDetails g tableRef)) @ ''.''
                  @ quoteIdentifier g (generateIndexName_spec (extractTableDetails g tableRef) fieldNames),
                if truthy (js_get options ''cascade'') then ''CASCADE'' else []])"
    using assms(1) by (auto simp: pg_removeIndexQuery_def Let_def remove) (simp_all add: withSpecIndexName_def)
  show ?thesis
    by (simp only: name remove q) (simp add: generateIndexName_spec_def)
qed

theorem remove_index_by_fields_witness:
  "pg_removeIndexName (withSpecIndexName sampleGenerator) (JStr ''users'')
       (IndexAttributes [''first_name'', ''last_name''])
     = ''users_first_name_last_name''
   \<and> addIndexName_spec sampleGenerator (JStr ''users'') JUndefined [''first_name'', ''last_name'']
     = ''users_first_name_last_name''
   \<and> pg_removeIndexQuery (withSpecIndexName sampleGenerator) (JStr ''users'')
       (IndexAttributes [''first_name'', ''last_name'']) (JObj [(''ifExists'', JBool True)])
     = Inr ''DROP INDEX IF EXISTS \"public\".\"users_first_name_last_name\"''"
  using remove_index_by_fields [where options = "JObj [(''ifExists'', JBool True)]"
      and nameOption = JUndefined and g = sampleGenerator and tableRef = "JStr ''users''"
      and fieldNames = "[''first_name'', ''last_name'']"]
  by (simp add: sampleGenerator_def sampleExtractTableDetails_def sampleQuoteIdentifier_def
      joinSQLFragments_def)

section \<open>Lemmas on the option validator of the spec\<close>






section \<open>Option validation\<close>




end
